theory Spec2Isabelle
  imports Main "HOL-Library.Char_ord" "HOL-Library.List_Lexorder"
begin

section \<open>Python values read from the metadata documents\<close>

text \<open>
  \<^verbatim>\<open>json.load\<close> yields untyped Python values, and \<^verbatim>\<open>build_asset_manifest\<close>
  uses them without checking their shape, so the model keeps them untyped.
  \<open>JObj\<close> carries the items of the loaded dict in insertion order (their keys are
  distinct); number literals with a fraction or an exponent (Python floats) are not
  modelled. Strings are byte strings in UTF-8, whose bytewise order is the order of
  the code points.
\<close>

datatype json =
    JNull
  | JBool bool
  | JInt int
  | JStr string
  | JArr "json list"
  | JObj "(string \<times> json) list"

text \<open>The hashable values, which are what a Python set can hold and an icon name can be.\<close>

datatype atom = ANone | ABool bool | AInt int | AStr string

datatype exn =
    FileNotFoundError
  | JSONDecodeError
  | AttributeError
  | KeyError
  | TypeError
  | OSError

text \<open>What \<^verbatim>\<open>open(p)\<close> followed by \<^verbatim>\<open>json.load\<close> finds at a path.\<close>

datatype file_content = NoSuchFile | InvalidText | Document json

definition load_json :: "file_content \<Rightarrow> exn + json" where
  "load_json c =
     (case c of
        NoSuchFile \<Rightarrow> Inl FileNotFoundError
      | InvalidText \<Rightarrow> Inl JSONDecodeError
      | Document j \<Rightarrow> Inr j)"

text \<open>\<^verbatim>\<open>d.values()\<close>: only a dict has the method.\<close>

definition py_values :: "json \<Rightarrow> exn + json list" where
  "py_values j = (case j of JObj kvs \<Rightarrow> Inr (map snd kvs) | _ \<Rightarrow> Inl AttributeError)"

text \<open>\<^verbatim>\<open>v[k]\<close> with a string key: a dict looks the key up, every other value raises.\<close>

definition py_getitem :: "json \<Rightarrow> string \<Rightarrow> exn + json" where
  "py_getitem j k =
     (case j of
        JObj kvs \<Rightarrow> (case map_of kvs k of None \<Rightarrow> Inl KeyError | Some v \<Rightarrow> Inr v)
      | _ \<Rightarrow> Inl TypeError)"

text \<open>\<^verbatim>\<open>for x in v\<close>: a list gives its elements, a dict its keys, a string its characters.\<close>

definition py_iter :: "json \<Rightarrow> exn + json list" where
  "py_iter j =
     (case j of
        JArr xs \<Rightarrow> Inr xs
      | JObj kvs \<Rightarrow> Inr (map (\<lambda>kv. JStr (fst kv)) kvs)
      | JStr s \<Rightarrow> Inr (map (\<lambda>c. JStr [c]) s)
      | _ \<Rightarrow> Inl TypeError)"

fun contains_str :: "string \<Rightarrow> string \<Rightarrow> bool" where
  "contains_str p [] = (p = [])"
| "contains_str p (c # cs) = (take (length p) (c # cs) = p \<or> contains_str p cs)"

text \<open>\<^verbatim>\<open>k in v\<close> with a string \<open>k\<close>: key of a dict, element of a list, substring of a string.\<close>

definition py_contains :: "string \<Rightarrow> json \<Rightarrow> exn + bool" where
  "py_contains k j =
     (case j of
        JObj kvs \<Rightarrow> Inr (k \<in> set (map fst kvs))
      | JArr xs \<Rightarrow> Inr (JStr k \<in> set xs)
      | JStr s \<Rightarrow> Inr (contains_str k s)
      | _ \<Rightarrow> Inl TypeError)"

text \<open>Adding to a set hashes the value; lists and dicts are unhashable.\<close>

definition py_hash :: "json \<Rightarrow> exn + atom" where
  "py_hash j =
     (case j of
        JNull \<Rightarrow> Inr ANone
      | JBool b \<Rightarrow> Inr (ABool b)
      | JInt n \<Rightarrow> Inr (AInt n)
      | JStr s \<Rightarrow> Inr (AStr s)
      | _ \<Rightarrow> Inl TypeError)"

definition num_val :: "atom \<Rightarrow> int option" where
  "num_val a =
     (case a of AInt n \<Rightarrow> Some n | ABool b \<Rightarrow> Some (if b then 1 else 0) | _ \<Rightarrow> None)"

definition is_str :: "atom \<Rightarrow> bool" where
  "is_str a = (case a of AStr _ \<Rightarrow> True | _ \<Rightarrow> False)"

definition str_val :: "atom \<Rightarrow> string" where
  "str_val a = (case a of AStr s \<Rightarrow> s | _ \<Rightarrow> [])"

text \<open>Python's \<^verbatim>\<open>==\<close> on hashable values: \<^verbatim>\<open>True == 1\<close> and \<^verbatim>\<open>False == 0\<close>.\<close>

definition py_eq :: "atom \<Rightarrow> atom \<Rightarrow> bool" where
  "py_eq a b = (a = b \<or> (num_val a \<noteq> None \<and> num_val a = num_val b))"

text \<open>
  A Python set, as the list of its members in insertion order: \<^verbatim>\<open>add\<close> keeps the
  member already there when an equal one comes.
\<close>

definition set_add :: "atom list \<Rightarrow> atom \<Rightarrow> atom list" where
  "set_add s a = (if list_ex (py_eq a) s then s else s @ [a])"

definition set_minus :: "atom list \<Rightarrow> atom list \<Rightarrow> atom list" where
  "set_minus s t = filter (\<lambda>a. \<not> list_ex (py_eq a) t) s"

text \<open>
  \<^verbatim>\<open>sorted(s)\<close> of a set: strings compare with strings and numbers with numbers;
  any other comparison raises, and a sort of two or more members makes one.
  No two members are equal, so the result does not depend on the order of iteration.
\<close>

definition py_sorted :: "atom list \<Rightarrow> exn + atom list" where
  "py_sorted xs =
     (if length xs \<le> 1 then Inr xs
      else if list_all is_str xs then Inr (sort_key str_val xs)
      else if list_all (\<lambda>a. num_val a \<noteq> None) xs then Inr (sort_key (\<lambda>a. the (num_val a)) xs)
      else Inl TypeError)"

fun str_nat :: "nat \<Rightarrow> string" where
  "str_nat n =
     (if n < 10 then [''0123456789'' ! n]
      else str_nat (n div 10) @ [''0123456789'' ! (n mod 10)])"

declare str_nat.simps [simp del]

definition str_int :: "int \<Rightarrow> string" where
  "str_int i = (if i < 0 then ''-'' @ str_nat (nat (- i)) else str_nat (nat i))"

text \<open>\<^verbatim>\<open>str(v)\<close>, which is what an f-string puts in place of \<^verbatim>\<open>{v}\<close>.\<close>

definition py_str :: "atom \<Rightarrow> string" where
  "py_str a =
     (case a of
        ANone \<Rightarrow> ''None''
      | ABool b \<Rightarrow> (if b then ''True'' else ''False'')
      | AInt n \<Rightarrow> str_int n
      | AStr s \<Rightarrow> s)"

section \<open>Paths and the fixed asset lists\<close>

text \<open>
  A \<^verbatim>\<open>pathlib.Path\<close> is kept as the expression that built it: \<open>Join p s\<close> is
  \<^verbatim>\<open>p / s\<close> and \<open>Parent p\<close> is \<^verbatim>\<open>p.parent\<close>. The operating system, below,
  gives them their meaning.
\<close>

datatype path = Path string | Join path string | Parent path

definition CATEGORY_ICONS :: "string list" where
  "CATEGORY_ICONS =
     [''archaeostudies'', ''biology'', ''computing'', ''field_manipulation'',
      ''industry'', ''materials'', ''military_theory'', ''new_worlds'',
      ''particles'', ''propulsion'', ''psionics'', ''statecraft'', ''voidcraft'']"

definition BACKGROUND_TEXTURES :: "(string \<times> string) list" where
  "BACKGROUND_TEXTURES =
     [(''tech_bg_physics'', ''gfx/interface/tech_view/tech_bg_physics.dds''),
      (''tech_bg_society'', ''gfx/interface/tech_view/tech_bg_society.dds''),
      (''tech_bg_engineering'', ''gfx/interface/tech_view/tech_bg_engineering.dds''),
      (''tech_bg_rare'', ''gfx/interface/tech_view/tech_bg_rare.dds''),
      (''tech_bg_dangerous'', ''gfx/interface/tech_view/tech_bg_dangerous.dds'')]"

definition UI_TEXTURES :: "(string \<times> string) list" where
  "UI_TEXTURES =
     [(''background_tutorial_detailed'',
         ''gfx/interface/tutorial_mission_window/background_tutorial_detailed.dds''),
      (''extradimensional_blue_room'',
         ''gfx/portraits/city_sets/extradimensional_blue_room.dds'')]"

definition CHECKBOX_SPRITE :: "(string \<times> string) list" where
  "CHECKBOX_SPRITE =
     [(''button_24_24_checkbox'', ''gfx/interface/buttons/button_24_24_checkbox.dds'')]"

text \<open>Checkbox crop regions: (x, y, width, height).\<close>

definition CHECKBOX_REGIONS :: "(string \<times> (int \<times> int \<times> int \<times> int)) list" where
  "CHECKBOX_REGIONS =
     [(''checkbox_normal'', (11, 11, 26, 26)),
      (''checkbox_pressed'', (59, 11, 26, 26)),
      (''checkbox_hover'', (107, 11, 26, 26))]"

definition SUBDIRS :: "string list" where
  "SUBDIRS = [''tech_icons'', ''swap_icons'', ''category_icons'', ''backgrounds'', ''ui'', ''sprites'']"

section \<open>Data classes\<close>

record AssetEntry =
  name :: atom
  category :: string
  src_dds :: path
  dst_png :: path
  dst_avif :: path
  lossless :: bool

record Stats =
  total :: int
  converted :: int
  skipped :: int
  failed :: int
  dds_bytes :: int
  png_bytes :: int
  avif_bytes :: int
  errors :: "string list"
  warnings :: "string list"

section \<open>Asset manifest building\<close>

text \<open>The set comprehension \<^verbatim>\<open>{t["icon"] for t in techs.values()}\<close>, one value at a time.\<close>

fun collect_icons :: "json list \<Rightarrow> atom list \<Rightarrow> exn + atom list" where
  "collect_icons [] acc = Inr acc"
| "collect_icons (t # ts) acc =
     (case py_getitem t ''icon'' of
        Inl e \<Rightarrow> Inl e
      | Inr v \<Rightarrow>
          (case py_hash v of
             Inl e \<Rightarrow> Inl e
           | Inr a \<Rightarrow> collect_icons ts (set_add acc a)))"

text \<open>The inner loop \<^verbatim>\<open>for swap in swap_list\<close>.\<close>

fun collect_swap_list :: "json list \<Rightarrow> atom list \<Rightarrow> exn + atom list" where
  "collect_swap_list [] acc = Inr acc"
| "collect_swap_list (swap # rest) acc =
     (case py_contains ''name'' swap of
        Inl e \<Rightarrow> Inl e
      | Inr False \<Rightarrow> collect_swap_list rest acc
      | Inr True \<Rightarrow>
          (case py_getitem swap ''name'' of
             Inl e \<Rightarrow> Inl e
           | Inr v \<Rightarrow>
               (case py_hash v of
                  Inl e \<Rightarrow> Inl e
                | Inr a \<Rightarrow> collect_swap_list rest (set_add acc a))))"

text \<open>The outer loop \<^verbatim>\<open>for swap_list in swaps.values()\<close>.\<close>

fun collect_swaps :: "json list \<Rightarrow> atom list \<Rightarrow> exn + atom list" where
  "collect_swaps [] acc = Inr acc"
| "collect_swaps (swap_list # rest) acc =
     (case py_iter swap_list of
        Inl e \<Rightarrow> Inl e
      | Inr sws \<Rightarrow>
          (case collect_swap_list sws acc of
             Inl e \<Rightarrow> Inl e
           | Inr acc' \<Rightarrow> collect_swaps rest acc'))"

definition icon_entry :: "string \<Rightarrow> path \<Rightarrow> path \<Rightarrow> path \<Rightarrow> atom \<Rightarrow> AssetEntry" where
  "icon_entry cat stellaris_path png_base avif_base icon =
     \<lparr> name = icon,
       category = cat,
       src_dds = Join (Join stellaris_path ''gfx/interface/icons/technologies'')
                   (py_str icon @ ''.dds''),
       dst_png = Join (Join png_base cat) (py_str icon @ ''.png''),
       dst_avif = Join (Join avif_base cat) (py_str icon @ ''.avif''),
       lossless = True \<rparr>"

definition category_entry :: "path \<Rightarrow> path \<Rightarrow> path \<Rightarrow> string \<Rightarrow> AssetEntry" where
  "category_entry stellaris_path png_base avif_base cat =
     (let nm = ''category_'' @ cat in
      \<lparr> name = AStr nm,
        category = ''category_icons'',
        src_dds = Join (Join stellaris_path ''gfx/interface/icons/technologies/categories'')
                    (nm @ ''.dds''),
        dst_png = Join (Join png_base ''category_icons'') (nm @ ''.png''),
        dst_avif = Join (Join avif_base ''category_icons'') (nm @ ''.avif''),
        lossless = True \<rparr>)"

definition texture_entry ::
  "string \<Rightarrow> bool \<Rightarrow> path \<Rightarrow> path \<Rightarrow> path \<Rightarrow> string \<times> string \<Rightarrow> AssetEntry" where
  "texture_entry cat ll stellaris_path png_base avif_base item =
     (let nm = fst item; rel_path = snd item in
      \<lparr> name = AStr nm,
        category = cat,
        src_dds = Join stellaris_path rel_path,
        dst_png = Join (Join png_base cat) (nm @ ''.png''),
        dst_avif = Join (Join avif_base cat) (nm @ ''.avif''),
        lossless = ll \<rparr>)"

text \<open>
  Steps 3 to 6 of \<^verbatim>\<open>build_asset_manifest\<close>: the entries of the fixed lists, which
  need no metadata. Backgrounds and UI textures are the two lossy categories.
\<close>

definition fixed_entries :: "path \<Rightarrow> path \<Rightarrow> path \<Rightarrow> AssetEntry list" where
  "fixed_entries stellaris_path png_base avif_base =
     map (category_entry stellaris_path png_base avif_base) CATEGORY_ICONS
     @ map (texture_entry ''backgrounds'' False stellaris_path png_base avif_base)
         BACKGROUND_TEXTURES
     @ map (texture_entry ''ui'' False stellaris_path png_base avif_base) UI_TEXTURES
     @ map (texture_entry ''sprites'' True stellaris_path png_base avif_base) CHECKBOX_SPRITE"

text \<open>Step 1: the sorted set of the icons of \<^verbatim>\<open>technologies.json\<close>.\<close>

definition load_tech_icons :: "file_content \<Rightarrow> exn + atom list" where
  "load_tech_icons c =
     (case load_json c of
        Inl e \<Rightarrow> Inl e
      | Inr techs \<Rightarrow>
          (case py_values techs of
             Inl e \<Rightarrow> Inl e
           | Inr ts \<Rightarrow>
               (case collect_icons ts [] of
                  Inl e \<Rightarrow> Inl e
                | Inr s \<Rightarrow> py_sorted s)))"

text \<open>
  Step 2: the names of \<^verbatim>\<open>technology_swaps.json\<close>, less those that are tech icons
  already, sorted.
\<close>

definition load_swap_icons :: "file_content \<Rightarrow> atom list \<Rightarrow> exn + atom list" where
  "load_swap_icons c tech_icons =
     (case load_json c of
        Inl e \<Rightarrow> Inl e
      | Inr swaps \<Rightarrow>
          (case py_values swaps of
             Inl e \<Rightarrow> Inl e
           | Inr sls \<Rightarrow>
               (case collect_swaps sls [] of
                  Inl e \<Rightarrow> Inl e
                | Inr s \<Rightarrow> py_sorted (set_minus s tech_icons))))"

text \<open>
  \<open>rd\<close> is what the file system holds at a path when it is opened. The technology
  file is opened, parsed and used before the swap file is opened.
\<close>

definition build_asset_manifest ::
  "path \<Rightarrow> path \<Rightarrow> path \<Rightarrow> (path \<Rightarrow> file_content) \<Rightarrow> exn + AssetEntry list" where
  "build_asset_manifest stellaris_path data_dir output_dir rd =
     (let png_base = Join output_dir ''png'';
          avif_base = Join output_dir ''avif''
      in case load_tech_icons (rd (Join data_dir ''technologies.json'')) of
           Inl e \<Rightarrow> Inl e
         | Inr tech_icons \<Rightarrow>
             (case load_swap_icons (rd (Join data_dir ''technology_swaps.json'')) tech_icons of
                Inl e \<Rightarrow> Inl e
              | Inr swap_icons \<Rightarrow>
                  Inr (map (icon_entry ''tech_icons'' stellaris_path png_base avif_base) tech_icons
                       @ map (icon_entry ''swap_icons'' stellaris_path png_base avif_base) swap_icons
                       @ fixed_entries stellaris_path png_base avif_base)))"

section \<open>The operating system\<close>

text \<open>
  Everything the script asks of its surroundings is an oracle over an abstract world
  \<open>'w\<close>, so that the theorems hold whatever the file system and the tools do.
  \<open>is_dir\<close> and \<open>is_file\<close> are \<^verbatim>\<open>Path.is_dir\<close> and \<^verbatim>\<open>Path.is_file\<close>,
  which answer \<open>False\<close> for a path that is not there and raise the \<^verbatim>\<open>OSError\<close> of
  \<^verbatim>\<open>stat\<close> when it is another one (a name too long, a directory that may not be
  searched); \<open>stat_size\<close> is \<^verbatim>\<open>path.stat().st_size\<close>, \<open>None\<close> when it raises
  \<^verbatim>\<open>OSError\<close>; \<open>which\<close> is \<^verbatim>\<open>shutil.which\<close>; \<open>read_file\<close> is what opening
  and parsing a file finds; \<open>mkdir\<close> is \<^verbatim>\<open>mkdir(parents=True, exist_ok=True)\<close>,
  which may raise; \<open>run\<close> is \<^verbatim>\<open>subprocess.run\<close> with its timeout; \<open>open_log\<close> is
  \<^verbatim>\<open>logging.FileHandler(log_file, mode="w")\<close>, which creates or truncates the file
  and may raise.
\<close>

datatype arg = S string | P path

datatype run_exn = TimeoutExpired | OtherException string

datatype proc_result = Completed int string | Raised run_exn

record 'w env =
  is_dir :: "'w \<Rightarrow> path \<Rightarrow> exn + bool"
  is_file :: "'w \<Rightarrow> path \<Rightarrow> exn + bool"
  stat_size :: "'w \<Rightarrow> path \<Rightarrow> int option"
  which :: "'w \<Rightarrow> string \<Rightarrow> string option"
  read_file :: "'w \<Rightarrow> path \<Rightarrow> file_content"
  mkdir :: "'w \<Rightarrow> path \<Rightarrow> exn option \<times> 'w"
  run :: "'w \<Rightarrow> arg list \<Rightarrow> int \<Rightarrow> proc_result \<times> 'w"
  open_log :: "'w \<Rightarrow> path \<Rightarrow> exn option \<times> 'w"

text \<open>
  The records the logger receives at WARNING and above, each with the values its
  message is formatted from. INFO and DEBUG records decide nothing and are left out.
  A prefix is \<^verbatim>\<open>[i/total] category/name\<close>.
\<close>

datatype level = WARNING | ERROR | CRITICAL

type_synonym prefix = "int \<times> int \<times> string \<times> atom"

datatype event =
    InvalidStellarisPath path path
  | MissingTechnologies path
  | ToolNotFound string
  | MagickFailed "arg list" string
  | MagickTimedOut "arg list"
  | MagickException string
  | AvifencFailed "arg list" string
  | AvifencTimedOut "arg list"
  | AvifencException string
  | MagickCropFailed "arg list" string
  | MagickCropException run_exn
  | DdsNotFound prefix path
  | DdsToPngFailed prefix
  | PngToAvifFailed prefix
  | CropAvifFailed string
  | CropFailed string
  | CheckboxNotFound

text \<open>
  The state of a run outside its own variables: the world, the command lines handed
  to \<^verbatim>\<open>subprocess.run\<close> so far, and the log.
\<close>

record 'w sys =
  world :: 'w
  calls :: "arg list list"
  log :: "(level \<times> event) list"

definition logger :: "level \<Rightarrow> event \<Rightarrow> 'w sys \<Rightarrow> 'w sys" where
  "logger l ev s = s\<lparr>log := log s @ [(l, ev)]\<rparr>"

record args =
  stellaris_path :: path
  output_dir :: path
  data_dir :: path
  log_file :: path
  dry_run :: bool
  no_avif :: bool
  jobs :: int

section \<open>Tool verification\<close>

definition check_tool :: "'w env \<Rightarrow> string \<Rightarrow> 'w sys \<Rightarrow> bool \<times> 'w sys" where
  "check_tool env nm s =
     (case which env (world s) nm of
        Some p \<Rightarrow> (True, s)
      | None \<Rightarrow> (False, logger CRITICAL (ToolNotFound nm) s))"

section \<open>Conversion functions\<close>

text \<open>
  Each returns \<open>Inr\<close> of its boolean, or \<open>Inl\<close> of the exception that leaves it.
  The directory is made before the \<^verbatim>\<open>try\<close>, so what \<open>mkdir\<close> raises is not caught.
\<close>

definition subprocess_run ::
  "'w env \<Rightarrow> arg list \<Rightarrow> int \<Rightarrow> 'w sys \<Rightarrow> proc_result \<times> 'w sys" where
  "subprocess_run env cmd timeout s =
     (case run env (world s) cmd timeout of
        (r, w) \<Rightarrow> (r, s\<lparr>world := w, calls := calls s @ [cmd]\<rparr>))"

definition dds_to_png :: "'w env \<Rightarrow> path \<Rightarrow> path \<Rightarrow> 'w sys \<Rightarrow> (exn + bool) \<times> 'w sys" where
  "dds_to_png env src dst s =
     (case mkdir env (world s) (Parent dst) of
        (Some e, w) \<Rightarrow> (Inl e, s\<lparr>world := w\<rparr>)
      | (None, w) \<Rightarrow>
          (let cmd = [S ''magick'', P src, P dst] in
           case subprocess_run env cmd 30 (s\<lparr>world := w\<rparr>) of
             (Completed returncode stderr, s') \<Rightarrow>
               if returncode \<noteq> 0 then (Inr False, logger ERROR (MagickFailed cmd stderr) s')
               else (Inr True, s')
           | (Raised TimeoutExpired, s') \<Rightarrow> (Inr False, logger ERROR (MagickTimedOut cmd) s')
           | (Raised (OtherException e), s') \<Rightarrow>
               (Inr False, logger ERROR (MagickException e) s')))"

definition avifenc_cmd :: "path \<Rightarrow> path \<Rightarrow> bool \<Rightarrow> int \<Rightarrow> arg list" where
  "avifenc_cmd src dst ll jbs =
     (let jobs_arg = (if jbs > 0 then str_int jbs else ''all'') in
      if ll then
        [S ''avifenc'', S ''--lossless'', S ''-s'', S ''0'',
         S ''-j'', S jobs_arg, P src, P dst]
      else
        [S ''avifenc'', S ''-q'', S ''90'', S ''--qalpha'', S ''100'',
         S ''-s'', S ''0'', S ''-y'', S ''444'',
         S ''-j'', S jobs_arg, P src, P dst])"

definition png_to_avif ::
  "'w env \<Rightarrow> path \<Rightarrow> path \<Rightarrow> bool \<Rightarrow> int \<Rightarrow> 'w sys \<Rightarrow> (exn + bool) \<times> 'w sys" where
  "png_to_avif env src dst ll jbs s =
     (case mkdir env (world s) (Parent dst) of
        (Some e, w) \<Rightarrow> (Inl e, s\<lparr>world := w\<rparr>)
      | (None, w) \<Rightarrow>
          (let cmd = avifenc_cmd src dst ll jbs in
           case subprocess_run env cmd 120 (s\<lparr>world := w\<rparr>) of
             (Completed returncode stderr, s') \<Rightarrow>
               if returncode \<noteq> 0 then (Inr False, logger ERROR (AvifencFailed cmd stderr) s')
               else (Inr True, s')
           | (Raised TimeoutExpired, s') \<Rightarrow> (Inr False, logger ERROR (AvifencTimedOut cmd) s')
           | (Raised (OtherException e), s') \<Rightarrow>
               (Inr False, logger ERROR (AvifencException e) s')))"

definition crop_sprite ::
  "'w env \<Rightarrow> path \<Rightarrow> int \<times> int \<times> int \<times> int \<Rightarrow> path \<Rightarrow> 'w sys \<Rightarrow> (exn + bool) \<times> 'w sys" where
  "crop_sprite env src_png region dst s =
     (case mkdir env (world s) (Parent dst) of
        (Some e, w) \<Rightarrow> (Inl e, s\<lparr>world := w\<rparr>)
      | (None, w) \<Rightarrow>
          (let (x, y, w', h) = region;
               cmd = [S ''magick'', P src_png, S ''-crop'',
                      S (str_int w' @ ''x'' @ str_int h @ ''+'' @ str_int x @ ''+'' @ str_int y),
                      S ''+repage'', P dst] in
           case subprocess_run env cmd 30 (s\<lparr>world := w\<rparr>) of
             (Completed returncode stderr, s') \<Rightarrow>
               if returncode \<noteq> 0 then (Inr False, logger ERROR (MagickCropFailed cmd stderr) s')
               else (Inr True, s')
           | (Raised e, s') \<Rightarrow> (Inr False, logger ERROR (MagickCropException e) s')))"

section \<open>Helpers\<close>

text \<open>Return file size in bytes, or 0 if it doesn't exist.\<close>

definition file_size :: "'w env \<Rightarrow> 'w \<Rightarrow> path \<Rightarrow> int" where
  "file_size env w p = (case stat_size env w p of Some n \<Rightarrow> n | None \<Rightarrow> 0)"

section \<open>Main\<close>

text \<open>The arrow of the messages, U+2192, in UTF-8.\<close>

definition arrow :: string where
  "arrow = [CHR 0xE2, CHR 0x86, CHR 0x92]"

definition init_stats :: "AssetEntry list \<Rightarrow> Stats" where
  "init_stats manifest =
     \<lparr> total = int (length manifest), converted = 0, skipped = 0, failed = 0,
       dds_bytes = 0, png_bytes = 0, avif_bytes = 0, errors = [], warnings = [] \<rparr>"

text \<open>
  The body of \<^verbatim>\<open>for i, entry in enumerate(manifest, 1)\<close>. Each \<^verbatim>\<open>continue\<close> and the
  end of the body return the statistics; an exception out of the check of the source or
  out of a conversion function leaves the loop and \<^verbatim>\<open>main\<close>.
\<close>

definition process_entry ::
  "'w env \<Rightarrow> args \<Rightarrow> int \<Rightarrow> AssetEntry \<Rightarrow> Stats \<Rightarrow> 'w sys \<Rightarrow> (exn + Stats) \<times> 'w sys" where
  "process_entry env a i entry stats s =
     (let prefix = (i, total stats, category entry, name entry);
          label = category entry @ ''/'' @ py_str (name entry)
      in
      case is_file env (world s) (src_dds entry) of
        Inl e \<Rightarrow> (Inl e, s)
      | Inr False \<Rightarrow>
          (Inr (stats\<lparr>skipped := skipped stats + 1,
                      warnings := warnings stats @ [label @ '': DDS missing'']\<rparr>),
           logger WARNING (DdsNotFound prefix (src_dds entry)) s)
      | Inr True \<Rightarrow>
          (let dds_size = file_size env (world s) (src_dds entry);
               stats1 = stats\<lparr>dds_bytes := dds_bytes stats + dds_size\<rparr>
           in
           case dds_to_png env (src_dds entry) (dst_png entry) s of
             (Inl e, s1) \<Rightarrow> (Inl e, s1)
           | (Inr False, s1) \<Rightarrow>
               (Inr (stats1\<lparr>failed := failed stats1 + 1,
                            errors := errors stats1 @ [label @ '': DDS'' @ arrow @ ''PNG failed'']\<rparr>),
                logger ERROR (DdsToPngFailed prefix) s1)
           | (Inr True, s1) \<Rightarrow>
               (let png_size = file_size env (world s1) (dst_png entry);
                    stats2 = stats1\<lparr>png_bytes := png_bytes stats1 + png_size\<rparr>
                in
                if \<not> no_avif a then
                  (case png_to_avif env (dst_png entry) (dst_avif entry) (lossless entry)
                          (jobs a) s1 of
                     (Inl e, s2) \<Rightarrow> (Inl e, s2)
                   | (Inr False, s2) \<Rightarrow>
                       (Inr (stats2\<lparr>failed := failed stats2 + 1,
                                    errors := errors stats2
                                      @ [label @ '': PNG'' @ arrow @ ''AVIF failed'']\<rparr>),
                        logger ERROR (PngToAvifFailed prefix) s2)
                   | (Inr True, s2) \<Rightarrow>
                       (let avif_size = file_size env (world s2) (dst_avif entry) in
                        (Inr (stats2\<lparr>avif_bytes := avif_bytes stats2 + avif_size,
                                     converted := converted stats2 + 1\<rparr>),
                         s2)))
                else (Inr (stats2\<lparr>converted := converted stats2 + 1\<rparr>), s1))))"

fun process_assets ::
  "'w env \<Rightarrow> args \<Rightarrow> int \<Rightarrow> AssetEntry list \<Rightarrow> Stats \<Rightarrow> 'w sys \<Rightarrow> (exn + Stats) \<times> 'w sys" where
  "process_assets env a i [] stats s = (Inr stats, s)"
| "process_assets env a i (entry # rest) stats s =
     (case process_entry env a i entry stats s of
        (Inl e, s') \<Rightarrow> (Inl e, s')
      | (Inr stats', s') \<Rightarrow> process_assets env a (i + 1) rest stats' s')"

definition checkbox_png :: "args \<Rightarrow> path" where
  "checkbox_png a =
     Join (Join (Join (output_dir a) ''png'') ''sprites'') ''button_24_24_checkbox.png''"

definition crop_png :: "args \<Rightarrow> string \<Rightarrow> path" where
  "crop_png a crop_name =
     Join (Join (Join (output_dir a) ''png'') ''sprites'') (crop_name @ ''.png'')"

definition crop_avif :: "args \<Rightarrow> string \<Rightarrow> path" where
  "crop_avif a crop_name =
     Join (Join (Join (output_dir a) ''avif'') ''sprites'') (crop_name @ ''.avif'')"

text \<open>The body of \<^verbatim>\<open>for crop_name, region in CHECKBOX_REGIONS.items()\<close>.\<close>

definition process_crop ::
  "'w env \<Rightarrow> args \<Rightarrow> string \<times> (int \<times> int \<times> int \<times> int) \<Rightarrow> Stats \<Rightarrow> 'w sys
     \<Rightarrow> (exn + Stats) \<times> 'w sys" where
  "process_crop env a item stats s =
     (let crop_name = fst item;
          region = snd item
      in
      case crop_sprite env (checkbox_png a) region (crop_png a crop_name) s of
        (Inl e, s1) \<Rightarrow> (Inl e, s1)
      | (Inr True, s1) \<Rightarrow>
          (let png_size = file_size env (world s1) (crop_png a crop_name);
               stats1 = stats\<lparr>png_bytes := png_bytes stats + png_size\<rparr>
           in
           if \<not> no_avif a then
             (case png_to_avif env (crop_png a crop_name) (crop_avif a crop_name) True (jobs a) s1 of
                (Inl e, s2) \<Rightarrow> (Inl e, s2)
              | (Inr True, s2) \<Rightarrow>
                  (let avif_size = file_size env (world s2) (crop_avif a crop_name) in
                   (Inr (stats1\<lparr>avif_bytes := avif_bytes stats1 + avif_size\<rparr>), s2))
              | (Inr False, s2) \<Rightarrow>
                  (Inr (stats1\<lparr>errors := errors stats1
                                  @ [''sprites/'' @ crop_name @ '': PNG'' @ arrow @ ''AVIF failed'']\<rparr>),
                   logger ERROR (CropAvifFailed crop_name) s2))
           else (Inr stats1, s1))
      | (Inr False, s1) \<Rightarrow>
          (Inr (stats\<lparr>errors := errors stats @ [''sprites/'' @ crop_name @ '': crop failed'']\<rparr>),
           logger ERROR (CropFailed crop_name) s1))"

fun process_crops ::
  "'w env \<Rightarrow> args \<Rightarrow> (string \<times> (int \<times> int \<times> int \<times> int)) list \<Rightarrow> Stats \<Rightarrow> 'w sys
     \<Rightarrow> (exn + Stats) \<times> 'w sys" where
  "process_crops env a [] stats s = (Inr stats, s)"
| "process_crops env a (item # rest) stats s =
     (case process_crop env a item stats s of
        (Inl e, s') \<Rightarrow> (Inl e, s')
      | (Inr stats', s') \<Rightarrow> process_crops env a rest stats' s')"

text \<open>Special: checkbox sprite crops.\<close>

definition crop_pass :: "'w env \<Rightarrow> args \<Rightarrow> Stats \<Rightarrow> 'w sys \<Rightarrow> (exn + Stats) \<times> 'w sys" where
  "crop_pass env a stats s =
     (case is_file env (world s) (checkbox_png a) of
        Inl e \<Rightarrow> (Inl e, s)
      | Inr True \<Rightarrow> process_crops env a CHECKBOX_REGIONS stats s
      | Inr False \<Rightarrow>
          (Inr (stats\<lparr>warnings := warnings stats
                        @ [''Checkbox sprite sheet missing, crops skipped'']\<rparr>),
           logger WARNING CheckboxNotFound s))"

text \<open>Create output directories.\<close>

fun create_output_dirs ::
  "'w env \<Rightarrow> args \<Rightarrow> string list \<Rightarrow> 'w sys \<Rightarrow> exn option \<times> 'w sys" where
  "create_output_dirs env a [] s = (None, s)"
| "create_output_dirs env a (subdir # rest) s =
     (case mkdir env (world s) (Join (Join (output_dir a) ''png'') subdir) of
        (Some e, w) \<Rightarrow> (Some e, s\<lparr>world := w\<rparr>)
      | (None, w) \<Rightarrow>
          if \<not> no_avif a then
            (case mkdir env w (Join (Join (output_dir a) ''avif'') subdir) of
               (Some e, w') \<Rightarrow> (Some e, s\<lparr>world := w'\<rparr>)
             | (None, w') \<Rightarrow> create_output_dirs env a rest (s\<lparr>world := w'\<rparr>))
          else create_output_dirs env a rest (s\<lparr>world := w\<rparr>))"

text \<open>
  The checks of \<^verbatim>\<open>main\<close> before the manifest is built: the Stellaris path, the data
  directory, the required tools. \<open>Inr False\<close> is \<^verbatim>\<open>return 1\<close>.
\<close>

definition preflight :: "'w env \<Rightarrow> args \<Rightarrow> 'w sys \<Rightarrow> (exn + bool) \<times> 'w sys" where
  "preflight env a s =
     (let tech_dir = Join (Join (stellaris_path a) ''common'') ''technology'' in
      case is_dir env (world s) tech_dir of
        Inl e \<Rightarrow> (Inl e, s)
      | Inr False \<Rightarrow>
          (Inr False, logger CRITICAL (InvalidStellarisPath (stellaris_path a) tech_dir) s)
      | Inr True \<Rightarrow>
          (case is_file env (world s) (Join (data_dir a) ''technologies.json'') of
             Inl e \<Rightarrow> (Inl e, s)
           | Inr False \<Rightarrow> (Inr False, logger CRITICAL (MissingTechnologies (data_dir a)) s)
           | Inr True \<Rightarrow>
               (case check_tool env ''magick'' s of
                  (False, s1) \<Rightarrow> (Inr False, s1)
                | (True, s1) \<Rightarrow>
                    if \<not> no_avif a then
                      (case check_tool env ''avifenc'' s1 of (b, s2) \<Rightarrow> (Inr b, s2))
                    else (Inr True, s1))))"

text \<open>
  The listing of the dry run: for each category of \<^verbatim>\<open>SUBDIRS\<close>, whether the sources
  of the first five entries are there. Its INFO records are left out; what is left is
  the exception that a check may raise.
\<close>

fun check_sources :: "'w env \<Rightarrow> 'w \<Rightarrow> AssetEntry list \<Rightarrow> exn option" where
  "check_sources env w [] = None"
| "check_sources env w (e # es) =
     (case is_file env w (src_dds e) of
        Inl x \<Rightarrow> Some x
      | Inr exists \<Rightarrow> check_sources env w es)"

fun dry_run_listing :: "'w env \<Rightarrow> 'w \<Rightarrow> AssetEntry list \<Rightarrow> string list \<Rightarrow> exn option" where
  "dry_run_listing env w manifest [] = None"
| "dry_run_listing env w manifest (cat # rest) =
     (let entries = filter (\<lambda>entry. category entry = cat) manifest in
      case check_sources env w (take 5 entries) of
        Some x \<Rightarrow> Some x
      | None \<Rightarrow> dry_run_listing env w manifest rest)"

text \<open>
  The rest of \<^verbatim>\<open>main\<close> once the manifest is built and the run is not a dry run:
  the output directories, the main pass, the sprite crops, the exit status. The summary
  logged before the return reads the statistics and changes nothing.
\<close>

definition run_pipeline ::
  "'w env \<Rightarrow> args \<Rightarrow> AssetEntry list \<Rightarrow> 'w sys \<Rightarrow> (exn + int) \<times> 'w sys" where
  "run_pipeline env a manifest s =
     (case create_output_dirs env a SUBDIRS s of
        (Some e, s1) \<Rightarrow> (Inl e, s1)
      | (None, s1) \<Rightarrow>
          (case process_assets env a 1 manifest (init_stats manifest) s1 of
             (Inl e, s2) \<Rightarrow> (Inl e, s2)
           | (Inr stats, s2) \<Rightarrow>
               (case crop_pass env a stats s2 of
                  (Inl e, s3) \<Rightarrow> (Inl e, s3)
                | (Inr stats', s3) \<Rightarrow> (Inr (if failed stats' > 0 then 1 else 0), s3))))"

text \<open>
  \<^verbatim>\<open>main\<close>, from the validation of the paths on; what \<^verbatim>\<open>parse_args\<close> returns is
  \<open>a\<close>. An exception of the checks or of the builder is not caught.
\<close>

definition main :: "'w env \<Rightarrow> args \<Rightarrow> 'w sys \<Rightarrow> (exn + int) \<times> 'w sys" where
  "main env a s =
     (case preflight env a s of
        (Inl e, s1) \<Rightarrow> (Inl e, s1)
      | (Inr False, s1) \<Rightarrow> (Inr 1, s1)
      | (Inr True, s1) \<Rightarrow>
          (case build_asset_manifest (stellaris_path a) (data_dir a) (output_dir a)
                  (read_file env (world s1)) of
             Inl e \<Rightarrow> (Inl e, s1)
           | Inr manifest \<Rightarrow>
               if dry_run a then
                 (case dry_run_listing env (world s1) manifest SUBDIRS of
                    Some e \<Rightarrow> (Inl e, s1)
                  | None \<Rightarrow> (Inr 0, s1))
               else run_pipeline env a manifest s1))"

text \<open>
  The whole of \<^verbatim>\<open>main\<close>: \<^verbatim>\<open>setup_logging\<close> opens the log file, wherever
  \<^verbatim>\<open>--log-file\<close> points, before anything is validated; the records go to \<open>log\<close>.
\<close>

definition setup_logging :: "'w env \<Rightarrow> path \<Rightarrow> 'w sys \<Rightarrow> exn option \<times> 'w sys" where
  "setup_logging env lf s =
     (case open_log env (world s) lf of (r, w) \<Rightarrow> (r, s\<lparr>world := w\<rparr>))"

definition run_script :: "'w env \<Rightarrow> args \<Rightarrow> 'w sys \<Rightarrow> (exn + int) \<times> 'w sys" where
  "run_script env a s =
     (case setup_logging env (log_file a) s of
        (Some e, s0) \<Rightarrow> (Inl e, s0)
      | (None, s0) \<Rightarrow> main env a s0)"

text \<open>
  \<^verbatim>\<open>sys.exit(main())\<close>: the status is what \<^verbatim>\<open>main\<close> returns, and 1 when an exception
  leaves it.
\<close>

definition exit_status :: "exn + int \<Rightarrow> int" where
  "exit_status r = (case r of Inl e \<Rightarrow> 1 | Inr rc \<Rightarrow> rc)"

section \<open>Notions of the specification\<close>

text \<open>
  The top-level shape the builder expects of a metadata file: a document that parses
  and whose value is a mapping.
\<close>

definition is_mapping_document :: "file_content \<Rightarrow> bool" where
  "is_mapping_document c = (case c of Document (JObj kvs) \<Rightarrow> True | _ \<Rightarrow> False)"

text \<open>The descriptors of a manifest that carry a given name, and those of a given category.\<close>

definition descriptors_named :: "atom \<Rightarrow> AssetEntry list \<Rightarrow> AssetEntry list" where
  "descriptors_named a m = filter (\<lambda>e. name e = a) m"

definition in_category :: "string \<Rightarrow> AssetEntry list \<Rightarrow> AssetEntry list" where
  "in_category c m = filter (\<lambda>e. category e = c) m"

text \<open>
  The terminal states of the per-asset state machine, and the state an asset reaches
  when it is processed in a given state of the world: \<open>SKIPPED\<close> when its source is
  absent, \<open>FAILED\<close> when stage one or stage two fails, \<open>CONVERTED\<close> otherwise.
  \<open>None\<close> when an exception ends the run instead.
\<close>

datatype terminal = SKIPPED | FAILED | CONVERTED

definition asset_state :: "'w env \<Rightarrow> args \<Rightarrow> AssetEntry \<Rightarrow> 'w sys \<Rightarrow> terminal option" where
  "asset_state env a entry s =
     (case is_file env (world s) (src_dds entry) of
        Inl e \<Rightarrow> None
      | Inr False \<Rightarrow> Some SKIPPED
      | Inr True \<Rightarrow>
          (case dds_to_png env (src_dds entry) (dst_png entry) s of
             (Inl e, s1) \<Rightarrow> None
           | (Inr False, s1) \<Rightarrow> Some FAILED
           | (Inr True, s1) \<Rightarrow>
               if no_avif a then Some CONVERTED
               else
                 (case png_to_avif env (dst_png entry) (dst_avif entry) (lossless entry)
                         (jobs a) s1 of
                    (Inl e, s2) \<Rightarrow> None
                  | (Inr False, s2) \<Rightarrow> Some FAILED
                  | (Inr True, s2) \<Rightarrow> Some CONVERTED)))"

text \<open>The states the assets of a manifest reach, one after the other, as the main pass runs.\<close>

fun asset_states ::
  "'w env \<Rightarrow> args \<Rightarrow> int \<Rightarrow> AssetEntry list \<Rightarrow> Stats \<Rightarrow> 'w sys \<Rightarrow> terminal list" where
  "asset_states env a i [] stats s = []"
| "asset_states env a i (entry # rest) stats s =
     (case asset_state env a entry s of
        None \<Rightarrow> []
      | Some t \<Rightarrow>
          t # (case process_entry env a i entry stats s of
                 (Inl e, s') \<Rightarrow> []
               | (Inr stats', s') \<Rightarrow> asset_states env a (i + 1) rest stats' s'))"

section \<open>Example inputs\<close>

text \<open>The metadata of the specification's example.\<close>

definition example_techs :: json where
  "example_techs =
     JObj [(''tech_lasers'', JObj [(''icon'', JStr ''laser_1'')]),
           (''tech_armor'', JObj [(''icon'', JStr ''armor_1'')])]"

definition example_swaps :: json where
  "example_swaps =
     JObj [(''group1'', JArr [JObj [(''name'', JStr ''laser_1'')],
                              JObj [(''name'', JStr ''special_swap'')]])]"

definition metadata_files :: "json \<Rightarrow> json \<Rightarrow> path \<Rightarrow> file_content" where
  "metadata_files techs swaps p =
     (if p = Join (Path ''data'') ''technologies.json'' then Document techs
      else if p = Join (Path ''data'') ''technology_swaps.json'' then Document swaps
      else NoSuchFile)"

definition example_manifest :: "AssetEntry list" where
  "example_manifest =
     map (icon_entry ''tech_icons'' (Path ''stellaris'') (Join (Path ''out'') ''png'')
            (Join (Path ''out'') ''avif'')) [AStr ''armor_1'', AStr ''laser_1'']
     @ map (icon_entry ''swap_icons'' (Path ''stellaris'') (Join (Path ''out'') ''png'')
            (Join (Path ''out'') ''avif'')) [AStr ''special_swap'']
     @ fixed_entries (Path ''stellaris'') (Join (Path ''out'') ''png'') (Join (Path ''out'') ''avif'')"

text \<open>Metadata whose one icon has the name of a background texture.\<close>

definition collision_techs :: json where
  "collision_techs = JObj [(''tech_x'', JObj [(''icon'', JStr ''tech_bg_rare'')])]"

definition collision_swaps :: json where
  "collision_swaps = JObj [(''group1'', JArr [JObj [(''name'', JStr ''tech_bg_rare'')]])]"

definition collision_manifest :: "AssetEntry list" where
  "collision_manifest =
     icon_entry ''tech_icons'' (Path ''stellaris'') (Join (Path ''out'') ''png'')
       (Join (Path ''out'') ''avif'') (AStr ''tech_bg_rare'')
     # fixed_entries (Path ''stellaris'') (Join (Path ''out'') ''png'') (Join (Path ''out'') ''avif'')"

text \<open>
  A small operating system over a world that counts the operations that write (the
  directories made and the tools run): \<open>files\<close> are the regular files, \<open>tool\<close>
  is what a command line does, \<open>docs\<close> what the metadata files hold, \<open>dirs\<close> what
  making a directory raises.
\<close>

definition demo_env ::
  "path list \<Rightarrow> (arg list \<Rightarrow> proc_result) \<Rightarrow> (path \<Rightarrow> file_content)
     \<Rightarrow> (path \<Rightarrow> exn option) \<Rightarrow> nat env" where
  "demo_env files tool docs dirs =
     \<lparr> is_dir = (\<lambda>w p. Inr True),
       is_file = (\<lambda>w p. Inr (p \<in> set files)),
       stat_size = (\<lambda>w p. if p \<in> set files then Some 100 else None),
       which = (\<lambda>w nm. Some (''/usr/bin/'' @ nm)),
       read_file = (\<lambda>w p. docs p),
       mkdir = (\<lambda>w p. (dirs p, Suc w)),
       run = (\<lambda>w cmd timeout. (tool cmd, Suc w)),
       open_log = (\<lambda>w p. (None, Suc w)) \<rparr>"

definition demo_args :: args where
  "demo_args =
     \<lparr> stellaris_path = Path ''stellaris'', output_dir = Path ''out'', data_dir = Path ''data'',
       log_file = Path ''extraction.log'', dry_run = False, no_avif = False, jobs = 0 \<rparr>"

definition demo_sys :: "nat sys" where
  "demo_sys = \<lparr> world = 0, calls = [], log = [] \<rparr>"

definition empty_docs :: "path \<Rightarrow> file_content" where
  "empty_docs = metadata_files (JObj []) (JObj [])"

definition tool_ok :: "arg list \<Rightarrow> proc_result" where
  "tool_ok cmd = Completed 0 []"

definition tool_fails :: "arg list \<Rightarrow> proc_result" where
  "tool_fails cmd = Completed 1 ''error''"

definition avifenc_fails :: "arg list \<Rightarrow> proc_result" where
  "avifenc_fails cmd =
     (if cmd \<noteq> [] \<and> hd cmd = S ''avifenc'' then Completed 1 ''error'' else Completed 0 [])"

definition no_dirs_fail :: "path \<Rightarrow> exn option" where
  "no_dirs_fail p = None"

definition technologies_json :: path where
  "technologies_json = Join (Path ''data'') ''technologies.json''"

definition laser_entry :: AssetEntry where
  "laser_entry =
     icon_entry ''tech_icons'' (Path ''stellaris'') (Join (Path ''out'') ''png'')
       (Join (Path ''out'') ''avif'') (AStr ''laser_1'')"

text \<open>
  No source texture is there, the checkbox sheet of an earlier run is, and every tool
  run fails.
\<close>

definition crop_fail_env :: "nat env" where
  "crop_fail_env =
     demo_env [technologies_json, checkbox_png demo_args] tool_fails empty_docs no_dirs_fail"

text \<open>Every source texture is there and \<^verbatim>\<open>avifenc\<close> fails.\<close>

definition avif_fail_env :: "nat env" where
  "avif_fail_env =
     demo_env [technologies_json, src_dds laser_entry] avifenc_fails empty_docs no_dirs_fail"

text \<open>No directory can be made.\<close>

definition no_mkdir_env :: "nat env" where
  "no_mkdir_env =
     demo_env [technologies_json, src_dds laser_entry] tool_ok empty_docs (\<lambda>p. Some OSError)"

text \<open>The swap file holds a list instead of a mapping.\<close>

definition bad_swaps_env :: "nat env" where
  "bad_swaps_env =
     demo_env [technologies_json] tool_ok (metadata_files (JObj []) (JArr [])) no_dirs_fail"

text \<open>No source texture is there.\<close>

definition missing_env :: "nat env" where
  "missing_env = demo_env [technologies_json] tool_ok empty_docs no_dirs_fail"

text \<open>No source texture is there, the checkbox sheet is, and every tool run succeeds.\<close>

definition crop_ok_env :: "nat env" where
  "crop_ok_env =
     demo_env [technologies_json, checkbox_png demo_args] tool_ok empty_docs no_dirs_fail"

text \<open>
  The metadata of the example, of whose textures that of \<open>laser_1\<close> alone is there,
  and \<^verbatim>\<open>avifenc\<close> fails.
\<close>

definition failing_run_env :: "nat env" where
  "failing_run_env =
     demo_env [technologies_json, src_dds laser_entry] avifenc_fails
       (metadata_files example_techs example_swaps) no_dirs_fail"

text \<open>
  No source texture is there, and no source can be examined: \<^verbatim>\<open>stat\<close> raises on each
  of them an error that \<^verbatim>\<open>is_file\<close> does not take for absence.
\<close>

definition unreadable_env :: "nat env" where
  "unreadable_env =
     missing_env\<lparr>is_file := (\<lambda>w p. if p = technologies_json then Inr True else Inl OSError)\<rparr>"

text \<open>
  An operating system over a world that lists the paths written: the log file opened
  and the directories made. No source texture is there.
\<close>

definition trace_env :: "path list env" where
  "trace_env =
     \<lparr> is_dir = (\<lambda>w p. Inr True),
       is_file = (\<lambda>w p. Inr (p = technologies_json)),
       stat_size = (\<lambda>w p. None),
       which = (\<lambda>w nm. Some (''/usr/bin/'' @ nm)),
       read_file = (\<lambda>w p. empty_docs p),
       mkdir = (\<lambda>w p. (None, w @ [p])),
       run = (\<lambda>w cmd timeout. (Completed 0 [], w)),
       open_log = (\<lambda>w p. (None, w @ [p])) \<rparr>"

definition dry_args :: args where
  "dry_args = demo_args\<lparr>dry_run := True\<rparr>"

text \<open>A dry run whose log file is asked for under the output directory.\<close>

definition dry_args_log_in_output :: args where
  "dry_args_log_in_output =
     demo_args\<lparr>dry_run := True, log_file := Join (Path ''out'') ''extraction.log''\<rparr>"

definition trace_sys :: "path list sys" where
  "trace_sys = \<lparr> world = [], calls = [], log = [] \<rparr>"

section \<open>The manifest builder\<close>

lemma py_eq_AStr [simp]: "py_eq (AStr n) x = (x = AStr n)"
  by (auto simp: py_eq_def num_val_def)

lemma set_add_mono: "x \<in> set s \<Longrightarrow> x \<in> set (set_add s a)"
  by (simp add: set_add_def)

lemma set_add_AStr: "AStr n \<in> set (set_add s (AStr n))"
  by (auto simp: set_add_def list_ex_iff)

lemma distinct_set_add: "distinct s \<Longrightarrow> distinct (set_add s a)"
  by (auto simp: set_add_def list_ex_iff py_eq_def)

lemma collect_icons_mono:
  "collect_icons ts acc = Inr s \<Longrightarrow> x \<in> set acc \<Longrightarrow> x \<in> set s"
  by (induction ts arbitrary: acc) (auto split: sum.splits intro: set_add_mono)

lemma collect_icons_distinct:
  "collect_icons ts acc = Inr s \<Longrightarrow> distinct acc \<Longrightarrow> distinct s"
  by (induction ts arbitrary: acc) (auto split: sum.splits intro: distinct_set_add)

lemma collect_icons_mem:
  "collect_icons ts acc = Inr s \<Longrightarrow> t \<in> set ts \<Longrightarrow> py_getitem t ''icon'' = Inr (JStr n)
     \<Longrightarrow> AStr n \<in> set s"
proof (induction ts arbitrary: acc)
  case Nil
  then show ?case by simp
next
  case (Cons u us)
  show ?case
  proof (cases "t = u")
    case True
    with Cons.prems have "collect_icons us (set_add acc (AStr n)) = Inr s"
      by (simp add: py_hash_def)
    then show ?thesis
      using collect_icons_mono set_add_AStr by blast
  next
    case False
    with Cons show ?thesis
      by (auto split: sum.splits)
  qed
qed

lemma py_sorted_set: "py_sorted xs = Inr ys \<Longrightarrow> set ys = set xs"
  by (auto simp: py_sorted_def split: if_splits)

lemma py_sorted_distinct: "py_sorted xs = Inr ys \<Longrightarrow> distinct ys = distinct xs"
  by (auto simp: py_sorted_def split: if_splits)

lemma set_minus_AStr: "AStr n \<in> set t \<Longrightarrow> AStr n \<notin> set (set_minus s t)"
  by (auto simp: set_minus_def list_ex_iff)

lemma filter_eq_distinct:
  "distinct xs \<Longrightarrow> x \<in> set xs \<Longrightarrow> filter (\<lambda>a. a = x) xs = [x]"
  by (induction xs) (auto simp: filter_empty_conv)

lemma filter_eq_absent: "x \<notin> set xs \<Longrightarrow> filter (\<lambda>a. a = x) xs = []"
  by (induction xs) auto

lemma filter_icon_entries:
  "filter (\<lambda>e. name e = x \<and> Q (category e)) (map (icon_entry cat sp pb ab) xs)
     = (if Q cat then map (icon_entry cat sp pb ab) (filter (\<lambda>a. a = x) xs) else [])"
  by (induction xs) (auto simp: icon_entry_def)

lemma fixed_entries_category:
  "e \<in> set (fixed_entries sp pb ab) \<Longrightarrow>
     category e \<in> {''category_icons'', ''backgrounds'', ''ui'', ''sprites''}
     \<and> lossless e = (category e \<noteq> ''backgrounds'' \<and> category e \<noteq> ''ui'')"
  by (auto simp: fixed_entries_def category_entry_def texture_entry_def Let_def)

lemma build_manifest_parts:
  assumes "build_asset_manifest sp dd od rd = Inr m"
  obtains tech_icons swap_icons where
    "load_tech_icons (rd (Join dd ''technologies.json'')) = Inr tech_icons"
    "load_swap_icons (rd (Join dd ''technology_swaps.json'')) tech_icons = Inr swap_icons"
    "m = map (icon_entry ''tech_icons'' sp (Join od ''png'') (Join od ''avif'')) tech_icons
       @ map (icon_entry ''swap_icons'' sp (Join od ''png'') (Join od ''avif'')) swap_icons
       @ fixed_entries sp (Join od ''png'') (Join od ''avif'')"
  using assms by (auto simp: build_asset_manifest_def Let_def split: sum.splits)

lemmas builder_defs =
  build_asset_manifest_def load_tech_icons_def load_swap_icons_def load_json_def py_values_def
  py_getitem_def py_hash_def py_iter_def py_contains_def set_add_def set_minus_def py_eq_def
  num_val_def py_sorted_def is_str_def str_val_def Let_def

lemmas fixed_defs =
  fixed_entries_def category_entry_def texture_entry_def icon_entry_def py_str_def
  CATEGORY_ICONS_def BACKGROUND_TEXTURES_def UI_TEXTURES_def CHECKBOX_SPRITE_def Let_def

text \<open>
  C3, as amended. An icon name that a technology carries and a swap record carries too
  has exactly one descriptor in the category \<open>tech_icons\<close> and none in
  \<open>swap_icons\<close>; the descriptors of that name in the whole manifest are this one and
  those of the fixed lists that bear the same name. For the metadata of the example the
  builder yields \<open>armor_1\<close>, \<open>laser_1\<close> as \<open>tech_icons\<close>, in sorted order, and
  \<open>special_swap\<close> alone as \<open>swap_icons\<close>.
\<close>

theorem dedup_primary_wins:
  assumes techs: "rd (Join dd ''technologies.json'') = Document (JObj techs)"
    and t: "(tk, JObj tf) \<in> set techs" "map_of tf ''icon'' = Some (JStr n)"
    and swaps: "rd (Join dd ''technology_swaps.json'') = Document (JObj swaps)"
    and sw: "(g, JArr sws) \<in> set swaps" "JObj sf \<in> set sws" "map_of sf ''name'' = Some (JStr n)"
    and m: "build_asset_manifest sp dd od rd = Inr m"
  shows "descriptors_named (AStr n) (in_category ''tech_icons'' m)
           = [icon_entry ''tech_icons'' sp (Join od ''png'') (Join od ''avif'') (AStr n)]
         \<and> descriptors_named (AStr n) (in_category ''swap_icons'' m) = []
         \<and> descriptors_named (AStr n) m
           = icon_entry ''tech_icons'' sp (Join od ''png'') (Join od ''avif'') (AStr n)
             # descriptors_named (AStr n) (fixed_entries sp (Join od ''png'') (Join od ''avif''))
         \<and> build_asset_manifest (Path ''stellaris'') (Path ''data'') (Path ''out'')
              (metadata_files example_techs example_swaps) = Inr example_manifest
         \<and> map name (in_category ''tech_icons'' example_manifest)
           = [AStr ''armor_1'', AStr ''laser_1'']
         \<and> map name (in_category ''swap_icons'' example_manifest) = [AStr ''special_swap'']"
proof -
  let ?pb = "Join od ''png''" and ?ab = "Join od ''avif''"
  from m obtain tech_icons swap_icons where
    lt: "load_tech_icons (rd (Join dd ''technologies.json'')) = Inr tech_icons" and
    ls: "load_swap_icons (rd (Join dd ''technology_swaps.json'')) tech_icons = Inr swap_icons" and
    m_eq: "m = map (icon_entry ''tech_icons'' sp ?pb ?ab) tech_icons
       @ map (icon_entry ''swap_icons'' sp ?pb ?ab) swap_icons
       @ fixed_entries sp ?pb ?ab"
    by (rule build_manifest_parts)
  from lt techs obtain s where
    s: "collect_icons (map snd techs) [] = Inr s" and sorted_s: "py_sorted s = Inr tech_icons"
    by (auto simp: load_tech_icons_def load_json_def py_values_def split: sum.splits)
  have "JObj tf \<in> set (map snd techs)"
    using t(1) by force
  moreover have "py_getitem (JObj tf) ''icon'' = Inr (JStr n)"
    using t(2) by (simp add: py_getitem_def)
  ultimately have "AStr n \<in> set s"
    using s by (blast intro: collect_icons_mem)
  then have in_tech: "AStr n \<in> set tech_icons"
    using sorted_s by (simp add: py_sorted_set)
  have "distinct s"
    using s by (rule collect_icons_distinct) simp
  then have dist_tech: "distinct tech_icons"
    using sorted_s by (simp add: py_sorted_distinct)
  from ls swaps obtain u where "py_sorted (set_minus u tech_icons) = Inr swap_icons"
    by (auto simp: load_swap_icons_def load_json_def py_values_def split: sum.splits)
  then have "set swap_icons = set (set_minus u tech_icons)"
    by (rule py_sorted_set)
  then have not_swap: "AStr n \<notin> set swap_icons"
    using in_tech by (simp add: set_minus_AStr)
  have tech_part: "filter (\<lambda>a. a = AStr n) tech_icons = [AStr n]"
    using dist_tech in_tech by (rule filter_eq_distinct)
  have swap_part: "filter (\<lambda>a. a = AStr n) swap_icons = []"
    using not_swap by (rule filter_eq_absent)
  have fixed_none:
    "filter (\<lambda>e. name e = AStr n \<and> category e = ''tech_icons'') (fixed_entries sp ?pb ?ab) = []"
    "filter (\<lambda>e. name e = AStr n \<and> category e = ''swap_icons'') (fixed_entries sp ?pb ?ab) = []"
    by (auto simp: filter_empty_conv dest: fixed_entries_category)
  have swap_cat: "filter (\<lambda>e. name e = AStr n \<and> category e = c)
       (map (icon_entry ''swap_icons'' sp ?pb ?ab) swap_icons) = []" for c
    using filter_icon_entries [where Q = "\<lambda>d. d = c" and x = "AStr n"] swap_part by simp
  have tech_cat: "filter (\<lambda>e. name e = AStr n \<and> category e = c)
       (map (icon_entry ''tech_icons'' sp ?pb ?ab) tech_icons)
       = (if c = ''tech_icons'' then [icon_entry ''tech_icons'' sp ?pb ?ab (AStr n)] else [])" for c
    using filter_icon_entries [where Q = "\<lambda>d. d = c" and x = "AStr n"] tech_part by simp
  have in_cat: "descriptors_named (AStr n) (in_category c m)
       = filter (\<lambda>e. name e = AStr n \<and> category e = c) m" for c
    by (simp add: descriptors_named_def in_category_def conj_commute)
  have one: "descriptors_named (AStr n) (in_category ''tech_icons'' m)
           = [icon_entry ''tech_icons'' sp ?pb ?ab (AStr n)]"
    unfolding in_cat unfolding m_eq filter_append by (simp only: tech_cat swap_cat fixed_none) simp
  have none: "descriptors_named (AStr n) (in_category ''swap_icons'' m) = []"
    unfolding in_cat unfolding m_eq filter_append by (simp only: tech_cat swap_cat fixed_none) simp
  have all: "descriptors_named (AStr n) m
           = icon_entry ''tech_icons'' sp ?pb ?ab (AStr n)
             # descriptors_named (AStr n) (fixed_entries sp ?pb ?ab)"
    unfolding m_eq descriptors_named_def filter_append
    using filter_icon_entries [where Q = "\<lambda>c. True" and x = "AStr n"] tech_part swap_part
    by simp
  have example: "build_asset_manifest (Path ''stellaris'') (Path ''data'') (Path ''out'')
              (metadata_files example_techs example_swaps) = Inr example_manifest"
    by (simp add: builder_defs metadata_files_def example_techs_def example_swaps_def
          example_manifest_def)
  have ex_tech: "map name (in_category ''tech_icons'' example_manifest)
           = [AStr ''armor_1'', AStr ''laser_1'']"
    by (simp add: example_manifest_def in_category_def fixed_defs)
  have ex_swap: "map name (in_category ''swap_icons'' example_manifest) = [AStr ''special_swap'']"
    by (simp add: example_manifest_def in_category_def fixed_defs)
  from one none all example ex_tech ex_swap show ?thesis by blast
qed

theorem dedup_primary_wins_witness:
  "descriptors_named (AStr ''laser_1'') (in_category ''tech_icons'' example_manifest)
     = [icon_entry ''tech_icons'' (Path ''stellaris'') (Join (Path ''out'') ''png'')
          (Join (Path ''out'') ''avif'') (AStr ''laser_1'')]
   \<and> descriptors_named (AStr ''laser_1'') (in_category ''swap_icons'' example_manifest) = []"
proof -
  let ?rd = "metadata_files example_techs example_swaps"
  have techs: "?rd (Join (Path ''data'') ''technologies.json'')
      = Document (JObj [(''tech_lasers'', JObj [(''icon'', JStr ''laser_1'')]),
                        (''tech_armor'', JObj [(''icon'', JStr ''armor_1'')])])"
    by (simp add: metadata_files_def example_techs_def)
  have swaps: "?rd (Join (Path ''data'') ''technology_swaps.json'')
      = Document (JObj [(''group1'', JArr [JObj [(''name'', JStr ''laser_1'')],
                                           JObj [(''name'', JStr ''special_swap'')]])])"
    by (simp add: metadata_files_def example_swaps_def)
  have t1: "(''tech_lasers'', JObj [(''icon'', JStr ''laser_1'')])
      \<in> set [(''tech_lasers'', JObj [(''icon'', JStr ''laser_1'')]),
              (''tech_armor'', JObj [(''icon'', JStr ''armor_1'')])]"
    by simp
  have t2: "map_of [(''icon'', JStr ''laser_1'')] ''icon'' = Some (JStr ''laser_1'')"
    by simp
  have s1: "(''group1'', JArr [JObj [(''name'', JStr ''laser_1'')],
                               JObj [(''name'', JStr ''special_swap'')]])
      \<in> set [(''group1'', JArr [JObj [(''name'', JStr ''laser_1'')],
                                 JObj [(''name'', JStr ''special_swap'')]])]"
    by simp
  have s2: "JObj [(''name'', JStr ''laser_1'')]
      \<in> set [JObj [(''name'', JStr ''laser_1'')], JObj [(''name'', JStr ''special_swap'')]]"
    by simp
  have s3: "map_of [(''name'', JStr ''laser_1'')] ''name'' = Some (JStr ''laser_1'')"
    by simp
  have m: "build_asset_manifest (Path ''stellaris'') (Path ''data'') (Path ''out'') ?rd
      = Inr example_manifest"
    by (simp add: builder_defs metadata_files_def example_techs_def example_swaps_def
          example_manifest_def)
  from dedup_primary_wins [OF techs t1 t2 swaps s1 s2 s3 m] show ?thesis
    by blast
qed

theorem dedup_counterexample:
  "build_asset_manifest (Path ''stellaris'') (Path ''data'') (Path ''out'')
     (metadata_files collision_techs collision_swaps) = Inr collision_manifest
   \<and> map category (descriptors_named (AStr ''tech_bg_rare'') collision_manifest)
     = [''tech_icons'', ''backgrounds'']"
proof -
  have "build_asset_manifest (Path ''stellaris'') (Path ''data'') (Path ''out'')
     (metadata_files collision_techs collision_swaps) = Inr collision_manifest"
    by (simp add: builder_defs metadata_files_def collision_techs_def collision_swaps_def
          collision_manifest_def)
  moreover have "map category (descriptors_named (AStr ''tech_bg_rare'') collision_manifest)
     = [''tech_icons'', ''backgrounds'']"
    by (simp add: collision_manifest_def descriptors_named_def fixed_defs)
  ultimately show ?thesis by blast
qed

text \<open>
  C4. Every descriptor of a built manifest is lossy exactly when its category is
  \<open>backgrounds\<close> or \<open>ui\<close>, and lossless in each of the four other categories.
\<close>

theorem quality_policy:
  assumes "build_asset_manifest sp dd od rd = Inr m" and "e \<in> set m"
  shows "(\<not> lossless e \<longleftrightarrow> category e = ''backgrounds'' \<or> category e = ''ui'')
         \<and> (lossless e \<longleftrightarrow> category e = ''tech_icons'' \<or> category e = ''swap_icons''
               \<or> category e = ''category_icons'' \<or> category e = ''sprites'')"
proof -
  from assms(1) obtain tech_icons swap_icons where
    m: "m = map (icon_entry ''tech_icons'' sp (Join od ''png'') (Join od ''avif'')) tech_icons
       @ map (icon_entry ''swap_icons'' sp (Join od ''png'') (Join od ''avif'')) swap_icons
       @ fixed_entries sp (Join od ''png'') (Join od ''avif'')"
    by (rule build_manifest_parts)
  from assms(2) consider
      (tech) "e \<in> set (map (icon_entry ''tech_icons'' sp (Join od ''png'') (Join od ''avif'')) tech_icons)"
    | (swap) "e \<in> set (map (icon_entry ''swap_icons'' sp (Join od ''png'') (Join od ''avif'')) swap_icons)"
    | (fixed) "e \<in> set (fixed_entries sp (Join od ''png'') (Join od ''avif''))"
    unfolding m by auto
  then show ?thesis
  proof cases
    case tech
    then show ?thesis by (auto simp: icon_entry_def)
  next
    case swap
    then show ?thesis by (auto simp: icon_entry_def)
  next
    case fixed
    from fixed_entries_category [OF this] show ?thesis
      by auto
  qed
qed

theorem quality_policy_witness:
  "(\<not> lossless (texture_entry ''ui'' False (Path ''stellaris'') (Join (Path ''out'') ''png'')
        (Join (Path ''out'') ''avif'')
        (''extradimensional_blue_room'', ''gfx/portraits/city_sets/extradimensional_blue_room.dds''))
     \<longleftrightarrow> True)
   \<and> lossless (icon_entry ''swap_icons'' (Path ''stellaris'') (Join (Path ''out'') ''png'')
        (Join (Path ''out'') ''avif'') (AStr ''special_swap''))"
proof -
  let ?ui = "texture_entry ''ui'' False (Path ''stellaris'') (Join (Path ''out'') ''png'')
        (Join (Path ''out'') ''avif'')
        (''extradimensional_blue_room'', ''gfx/portraits/city_sets/extradimensional_blue_room.dds'')"
  let ?sw = "icon_entry ''swap_icons'' (Path ''stellaris'') (Join (Path ''out'') ''png'')
        (Join (Path ''out'') ''avif'') (AStr ''special_swap'')"
  have m: "build_asset_manifest (Path ''stellaris'') (Path ''data'') (Path ''out'')
      (metadata_files example_techs example_swaps) = Inr example_manifest"
    by (simp add: builder_defs metadata_files_def example_techs_def example_swaps_def
          example_manifest_def)
  have ui: "?ui \<in> set example_manifest"
    by (simp add: example_manifest_def fixed_entries_def UI_TEXTURES_def)
  have sw: "?sw \<in> set example_manifest"
    by (simp add: example_manifest_def)
  have cu: "category ?ui = ''ui''"
    by (simp add: texture_entry_def)
  have cs: "category ?sw = ''swap_icons''"
    by (simp add: icon_entry_def)
  from quality_policy [OF m ui] quality_policy [OF m sw] cu cs show ?thesis
    by simp
qed

section \<open>The conversion functions\<close>

lemmas conv_splits = prod.splits sum.splits bool.splits option.splits proc_result.splits
  run_exn.splits

lemma logger_simps [simp]:
  "world (logger l ev s) = world s"
  "calls (logger l ev s) = calls s"
  "log (logger l ev s) = log s @ [(l, ev)]"
  by (simp_all add: logger_def)

lemma dds_to_png_result:
  assumes "mkdir env (world s) (Parent dst) = (None, w)"
    and "run env w [S ''magick'', P src, P dst] 30 = (r, w')"
  shows "dds_to_png env src dst s =
     (case r of
        Completed rc err \<Rightarrow>
          if rc \<noteq> 0
          then (Inr False, logger ERROR (MagickFailed [S ''magick'', P src, P dst] err)
                  (s\<lparr>world := w', calls := calls s @ [[S ''magick'', P src, P dst]]\<rparr>))
          else (Inr True, s\<lparr>world := w', calls := calls s @ [[S ''magick'', P src, P dst]]\<rparr>)
      | Raised TimeoutExpired \<Rightarrow>
          (Inr False, logger ERROR (MagickTimedOut [S ''magick'', P src, P dst])
                  (s\<lparr>world := w', calls := calls s @ [[S ''magick'', P src, P dst]]\<rparr>))
      | Raised (OtherException e) \<Rightarrow>
          (Inr False, logger ERROR (MagickException e)
                  (s\<lparr>world := w', calls := calls s @ [[S ''magick'', P src, P dst]]\<rparr>)))"
  using assms
  by (simp add: dds_to_png_def subprocess_run_def Let_def split: conv_splits)

lemma png_to_avif_result:
  assumes "mkdir env (world s) (Parent dst) = (None, w)"
    and "run env w (avifenc_cmd src dst ll jbs) 120 = (r, w')"
  shows "png_to_avif env src dst ll jbs s =
     (case r of
        Completed rc err \<Rightarrow>
          if rc \<noteq> 0
          then (Inr False, logger ERROR (AvifencFailed (avifenc_cmd src dst ll jbs) err)
                  (s\<lparr>world := w', calls := calls s @ [avifenc_cmd src dst ll jbs]\<rparr>))
          else (Inr True, s\<lparr>world := w', calls := calls s @ [avifenc_cmd src dst ll jbs]\<rparr>)
      | Raised TimeoutExpired \<Rightarrow>
          (Inr False, logger ERROR (AvifencTimedOut (avifenc_cmd src dst ll jbs))
                  (s\<lparr>world := w', calls := calls s @ [avifenc_cmd src dst ll jbs]\<rparr>))
      | Raised (OtherException e) \<Rightarrow>
          (Inr False, logger ERROR (AvifencException e)
                  (s\<lparr>world := w', calls := calls s @ [avifenc_cmd src dst ll jbs]\<rparr>)))"
  using assms
  by (simp add: png_to_avif_def subprocess_run_def Let_def split: conv_splits)

lemma dds_to_png_calls:
  "dds_to_png env src dst s = (Inr b, s') \<Longrightarrow> calls s' = calls s @ [[S ''magick'', P src, P dst]]"
  by (auto simp: dds_to_png_def subprocess_run_def Let_def split: conv_splits if_splits)

lemma png_to_avif_calls:
  "png_to_avif env src dst ll jbs s = (Inr b, s') \<Longrightarrow>
     calls s' = calls s @ [avifenc_cmd src dst ll jbs]"
  by (auto simp: png_to_avif_def subprocess_run_def Let_def split: conv_splits if_splits)

text \<open>
  C6, as amended. Once the parent directory of the destination has been made, each
  stage conversion returns a boolean and raises nothing, whatever the tool does: it
  returns success exactly when the tool completes with exit code 0; a nonzero exit code
  logs the tool's error output, a timeout logs the command line, any other exception
  logs its text, and each of them returns failure.
\<close>

theorem stage_conversions_return:
  assumes mk: "mkdir env (world s) (Parent dst) = (None, w)"
    and mk': "mkdir env (world s) (Parent dst') = (None, w')"
  shows "(\<exists>b. fst (dds_to_png env src dst s) = Inr b)
    \<and> (\<exists>b. fst (png_to_avif env src' dst' ll jbs s) = Inr b)
    \<and> (\<forall>rc err. fst (run env w [S ''magick'', P src, P dst] 30) = Completed rc err \<longrightarrow>
          fst (dds_to_png env src dst s) = Inr (rc = 0)
          \<and> log (snd (dds_to_png env src dst s))
            = log s @ (if rc = 0 then [] else [(ERROR, MagickFailed [S ''magick'', P src, P dst] err)]))
    \<and> (fst (run env w [S ''magick'', P src, P dst] 30) = Raised TimeoutExpired \<longrightarrow>
          fst (dds_to_png env src dst s) = Inr False
          \<and> log (snd (dds_to_png env src dst s))
            = log s @ [(ERROR, MagickTimedOut [S ''magick'', P src, P dst])])
    \<and> (\<forall>e. fst (run env w [S ''magick'', P src, P dst] 30) = Raised (OtherException e) \<longrightarrow>
          fst (dds_to_png env src dst s) = Inr False
          \<and> log (snd (dds_to_png env src dst s)) = log s @ [(ERROR, MagickException e)])
    \<and> (\<forall>rc err. fst (run env w' (avifenc_cmd src' dst' ll jbs) 120) = Completed rc err \<longrightarrow>
          fst (png_to_avif env src' dst' ll jbs s) = Inr (rc = 0)
          \<and> log (snd (png_to_avif env src' dst' ll jbs s))
            = log s @ (if rc = 0 then [] else [(ERROR, AvifencFailed (avifenc_cmd src' dst' ll jbs) err)]))
    \<and> (fst (run env w' (avifenc_cmd src' dst' ll jbs) 120) = Raised TimeoutExpired \<longrightarrow>
          fst (png_to_avif env src' dst' ll jbs s) = Inr False
          \<and> log (snd (png_to_avif env src' dst' ll jbs s))
            = log s @ [(ERROR, AvifencTimedOut (avifenc_cmd src' dst' ll jbs))])
    \<and> (\<forall>e. fst (run env w' (avifenc_cmd src' dst' ll jbs) 120) = Raised (OtherException e) \<longrightarrow>
          fst (png_to_avif env src' dst' ll jbs s) = Inr False
          \<and> log (snd (png_to_avif env src' dst' ll jbs s)) = log s @ [(ERROR, AvifencException e)])"
proof -
  obtain r1 w1 where r1: "run env w [S ''magick'', P src, P dst] 30 = (r1, w1)"
    by (cases "run env w [S ''magick'', P src, P dst] 30")
  obtain r2 w2 where r2: "run env w' (avifenc_cmd src' dst' ll jbs) 120 = (r2, w2)"
    by (cases "run env w' (avifenc_cmd src' dst' ll jbs) 120")
  note d = dds_to_png_result [OF mk r1]
  note p = png_to_avif_result [OF mk' r2]
  have d_ret: "\<exists>b. fst (dds_to_png env src dst s) = Inr b"
    unfolding d by (auto split: proc_result.splits run_exn.splits)
  have p_ret: "\<exists>b. fst (png_to_avif env src' dst' ll jbs s) = Inr b"
    unfolding p by (auto split: proc_result.splits run_exn.splits)
  have d_cases:
    "\<forall>rc err. r1 = Completed rc err \<longrightarrow>
          fst (dds_to_png env src dst s) = Inr (rc = 0)
          \<and> log (snd (dds_to_png env src dst s))
            = log s @ (if rc = 0 then [] else [(ERROR, MagickFailed [S ''magick'', P src, P dst] err)])"
    "r1 = Raised TimeoutExpired \<longrightarrow>
          fst (dds_to_png env src dst s) = Inr False
          \<and> log (snd (dds_to_png env src dst s))
            = log s @ [(ERROR, MagickTimedOut [S ''magick'', P src, P dst])]"
    "\<forall>e. r1 = Raised (OtherException e) \<longrightarrow>
          fst (dds_to_png env src dst s) = Inr False
          \<and> log (snd (dds_to_png env src dst s)) = log s @ [(ERROR, MagickException e)]"
    unfolding d by simp_all
  have p_cases:
    "\<forall>rc err. r2 = Completed rc err \<longrightarrow>
          fst (png_to_avif env src' dst' ll jbs s) = Inr (rc = 0)
          \<and> log (snd (png_to_avif env src' dst' ll jbs s))
            = log s @ (if rc = 0 then [] else [(ERROR, AvifencFailed (avifenc_cmd src' dst' ll jbs) err)])"
    "r2 = Raised TimeoutExpired \<longrightarrow>
          fst (png_to_avif env src' dst' ll jbs s) = Inr False
          \<and> log (snd (png_to_avif env src' dst' ll jbs s))
            = log s @ [(ERROR, AvifencTimedOut (avifenc_cmd src' dst' ll jbs))]"
    "\<forall>e. r2 = Raised (OtherException e) \<longrightarrow>
          fst (png_to_avif env src' dst' ll jbs s) = Inr False
          \<and> log (snd (png_to_avif env src' dst' ll jbs s)) = log s @ [(ERROR, AvifencException e)]"
    unfolding p by simp_all
  from d_ret p_ret d_cases p_cases show ?thesis
    unfolding r1 r2 fst_conv by blast
qed

lemmas demo_defs =
  demo_env_def demo_args_def demo_sys_def empty_docs_def metadata_files_def tool_ok_def
  tool_fails_def avifenc_fails_def no_dirs_fail_def technologies_json_def laser_entry_def
  crop_fail_env_def avif_fail_env_def no_mkdir_env_def bad_swaps_env_def missing_env_def
  crop_ok_env_def failing_run_env_def unreadable_env_def trace_env_def dry_args_def
  dry_args_log_in_output_def trace_sys_def checkbox_png_def crop_png_def crop_avif_def

theorem stage_conversions_return_witness:
  "fst (dds_to_png avif_fail_env (src_dds laser_entry) (dst_png laser_entry) demo_sys) = Inr True
   \<and> fst (png_to_avif avif_fail_env (dst_png laser_entry) (dst_avif laser_entry) True 0 demo_sys)
     = Inr False
   \<and> log (snd (png_to_avif avif_fail_env (dst_png laser_entry) (dst_avif laser_entry) True 0 demo_sys))
     = [(ERROR, AvifencFailed (avifenc_cmd (dst_png laser_entry) (dst_avif laser_entry) True 0)
           ''error'')]"
proof -
  have mk: "mkdir avif_fail_env (world demo_sys) (Parent (dst_png laser_entry)) = (None, 1)"
    by (simp add: demo_defs)
  have mk': "mkdir avif_fail_env (world demo_sys) (Parent (dst_avif laser_entry)) = (None, 1)"
    by (simp add: demo_defs)
  have r1: "fst (run avif_fail_env 1 [S ''magick'', P (src_dds laser_entry), P (dst_png laser_entry)] 30)
      = Completed 0 []"
    by (simp add: demo_defs)
  have r2: "fst (run avif_fail_env 1 (avifenc_cmd (dst_png laser_entry) (dst_avif laser_entry) True 0) 120)
      = Completed 1 ''error''"
    by (simp add: demo_defs avifenc_cmd_def)
  have l: "log demo_sys = []"
    by (simp add: demo_sys_def)
  from stage_conversions_return [OF mk mk', of "src_dds laser_entry" "dst_png laser_entry" True 0]
    r1 r2 l
  show ?thesis
    by simp
qed

theorem stage_conversions_counterexample:
  "fst (dds_to_png no_mkdir_env (src_dds laser_entry) (dst_png laser_entry) demo_sys) = Inl OSError
   \<and> fst (png_to_avif no_mkdir_env (dst_png laser_entry) (dst_avif laser_entry) True 0 demo_sys)
     = Inl OSError"
  by (simp add: dds_to_png_def png_to_avif_def demo_defs)

section \<open>The main pass\<close>

lemma process_entry_raise:
  assumes "is_file env (world s) (src_dds entry) = Inl e"
  shows "process_entry env a i entry stats s = (Inl e, s)"
  using assms by (simp add: process_entry_def Let_def)

lemma process_entry_skip:
  assumes "is_file env (world s) (src_dds entry) = Inr False"
  shows "process_entry env a i entry stats s =
     (Inr (stats\<lparr>skipped := skipped stats + 1,
                 warnings := warnings stats
                   @ [category entry @ ''/'' @ py_str (name entry) @ '': DDS missing'']\<rparr>),
      logger WARNING (DdsNotFound (i, total stats, category entry, name entry) (src_dds entry)) s)"
  using assms by (simp add: process_entry_def Let_def)

lemma process_entry_stage_one:
  assumes "is_file env (world s) (src_dds entry) = Inr True"
    and "dds_to_png env (src_dds entry) (dst_png entry) s = (r, s1)"
  shows "process_entry env a i entry stats s =
     (case r of
        Inl e \<Rightarrow> (Inl e, s1)
      | Inr False \<Rightarrow>
          (Inr (stats\<lparr>dds_bytes := dds_bytes stats + file_size env (world s) (src_dds entry),
                      failed := failed stats + 1,
                      errors := errors stats
                        @ [category entry @ ''/'' @ py_str (name entry) @ '': DDS'' @ arrow @ ''PNG failed'']\<rparr>),
           logger ERROR (DdsToPngFailed (i, total stats, category entry, name entry)) s1)
      | Inr True \<Rightarrow>
          if no_avif a then
            (Inr (stats\<lparr>dds_bytes := dds_bytes stats + file_size env (world s) (src_dds entry),
                        png_bytes := png_bytes stats + file_size env (world s1) (dst_png entry),
                        converted := converted stats + 1\<rparr>),
             s1)
          else
            (case png_to_avif env (dst_png entry) (dst_avif entry) (lossless entry) (jobs a) s1 of
               (Inl e, s2) \<Rightarrow> (Inl e, s2)
             | (Inr False, s2) \<Rightarrow>
                 (Inr (stats\<lparr>dds_bytes := dds_bytes stats + file_size env (world s) (src_dds entry),
                             png_bytes := png_bytes stats + file_size env (world s1) (dst_png entry),
                             failed := failed stats + 1,
                             errors := errors stats
                               @ [category entry @ ''/'' @ py_str (name entry) @ '': PNG'' @ arrow @ ''AVIF failed'']\<rparr>),
                  logger ERROR (PngToAvifFailed (i, total stats, category entry, name entry)) s2)
             | (Inr True, s2) \<Rightarrow>
                 (Inr (stats\<lparr>dds_bytes := dds_bytes stats + file_size env (world s) (src_dds entry),
                             png_bytes := png_bytes stats + file_size env (world s1) (dst_png entry),
                             avif_bytes := avif_bytes stats + file_size env (world s2) (dst_avif entry),
                             converted := converted stats + 1\<rparr>),
                  s2)))"
  using assms
  by (simp add: process_entry_def Let_def split: sum.split bool.split prod.split)


text \<open>
  Every entry that is processed to the end of the loop body reaches one terminal state,
  and its counter alone moves.
\<close>

lemma process_entry_state:
  assumes "process_entry env a i entry stats s = (Inr stats', s')"
  shows "\<exists>t. asset_state env a entry s = Some t
     \<and> total stats' = total stats
     \<and> skipped stats' = skipped stats + (if t = SKIPPED then 1 else 0)
     \<and> failed stats' = failed stats + (if t = FAILED then 1 else 0)
     \<and> converted stats' = converted stats + (if t = CONVERTED then 1 else 0)"
proof -
  consider (raise) e where "is_file env (world s) (src_dds entry) = Inl e"
    | (absent) "is_file env (world s) (src_dds entry) = Inr False"
    | (present) "is_file env (world s) (src_dds entry) = Inr True"
    by (cases "is_file env (world s) (src_dds entry)") auto
  then show ?thesis
  proof cases
    case raise
    with assms show ?thesis
      by (simp add: process_entry_raise)
  next
    case absent
    then have "asset_state env a entry s = Some SKIPPED"
      by (simp add: asset_state_def)
    moreover from assms absent have
      "stats' = stats\<lparr>skipped := skipped stats + 1,
                   warnings := warnings stats
                     @ [category entry @ ''/'' @ py_str (name entry) @ '': DDS missing'']\<rparr>"
      by (simp add: process_entry_skip)
    ultimately show ?thesis by simp
  next
    case present
    obtain r s1 where one: "dds_to_png env (src_dds entry) (dst_png entry) s = (r, s1)"
      by (cases "dds_to_png env (src_dds entry) (dst_png entry) s")
    obtain r' s2 where two:
      "png_to_avif env (dst_png entry) (dst_avif entry) (lossless entry) (jobs a) s1 = (r', s2)"
      by (cases "png_to_avif env (dst_png entry) (dst_avif entry) (lossless entry) (jobs a) s1")
    note body = process_entry_stage_one [OF present one, of a i stats]
    have state: "asset_state env a entry s =
       (case r of
          Inl e \<Rightarrow> None
        | Inr False \<Rightarrow> Some FAILED
        | Inr True \<Rightarrow>
            if no_avif a then Some CONVERTED
            else (case r' of Inl e \<Rightarrow> None | Inr False \<Rightarrow> Some FAILED | Inr True \<Rightarrow> Some CONVERTED))"
      using present one two by (simp add: asset_state_def split: sum.split bool.split)
    show ?thesis
    proof (cases r)
      case (Inl e)
      with assms body show ?thesis by simp
    next
      case (Inr b)
      note r = this
      show ?thesis
      proof (cases b)
        case False
        with assms body r state show ?thesis by auto
      next
        case True
        note b = this
        show ?thesis
        proof (cases "no_avif a")
          case True
          with assms body r b state show ?thesis by auto
        next
          case False
          note av = this
          show ?thesis
          proof (cases r')
            case (Inl e)
            with assms body r b av two show ?thesis by simp
          next
            case (Inr b')
            with assms body r b av two state show ?thesis by (cases b') auto
          qed
        qed
      qed
    qed
  qed
qed

lemma process_assets_counts:
  assumes "process_assets env a i manifest stats s = (Inr stats', s')"
  shows "length (asset_states env a i manifest stats s) = length manifest
     \<and> total stats' = total stats
     \<and> skipped stats' = skipped stats + int (count_list (asset_states env a i manifest stats s) SKIPPED)
     \<and> failed stats' = failed stats + int (count_list (asset_states env a i manifest stats s) FAILED)
     \<and> converted stats' = converted stats
         + int (count_list (asset_states env a i manifest stats s) CONVERTED)"
  using assms
proof (induction manifest arbitrary: i stats s)
  case Nil
  then show ?case by simp
next
  case (Cons entry rest)
  from Cons.prems obtain st1 s1 where
    step: "process_entry env a i entry stats s = (Inr st1, s1)" and
    rest: "process_assets env a (i + 1) rest st1 s1 = (Inr stats', s')"
    by (auto split: prod.splits sum.splits)
  from process_entry_state [OF step] obtain t where
    t: "asset_state env a entry s = Some t" and
    c: "total st1 = total stats"
       "skipped st1 = skipped stats + (if t = SKIPPED then 1 else 0)"
       "failed st1 = failed stats + (if t = FAILED then 1 else 0)"
       "converted st1 = converted stats + (if t = CONVERTED then 1 else 0)"
    by blast
  have states: "asset_states env a i (entry # rest) stats s
      = t # asset_states env a (i + 1) rest st1 s1"
    using t step by simp
  from Cons.IH [OF rest] c show ?case
    unfolding states by (cases t) simp_all
qed

lemma count_terminal:
  "length ts = count_list ts SKIPPED + count_list ts FAILED + count_list ts CONVERTED"
proof (induction ts)
  case Nil
  then show ?case by simp
next
  case (Cons t ts)
  then show ?case by (cases t) simp_all
qed

section \<open>The sprite crops\<close>

lemma process_crop_result:
  assumes "crop_sprite env (checkbox_png a) region
             (crop_png a crop_name) s = (r, s1)"
  shows "process_crop env a (crop_name, region) stats s =
     (case r of
        Inl e \<Rightarrow> (Inl e, s1)
      | Inr False \<Rightarrow>
          (Inr (stats\<lparr>errors := errors stats @ [''sprites/'' @ crop_name @ '': crop failed'']\<rparr>),
           logger ERROR (CropFailed crop_name) s1)
      | Inr True \<Rightarrow>
          if no_avif a then
            (Inr (stats\<lparr>png_bytes := png_bytes stats + file_size env (world s1)
                     (crop_png a crop_name)\<rparr>),
             s1)
          else
            (case png_to_avif env
                    (crop_png a crop_name)
                    (crop_avif a crop_name)
                    True (jobs a) s1 of
               (Inl e, s2) \<Rightarrow> (Inl e, s2)
             | (Inr False, s2) \<Rightarrow>
                 (Inr (stats\<lparr>png_bytes := png_bytes stats + file_size env (world s1)
                          (crop_png a crop_name),
                        errors := errors stats
                          @ [''sprites/'' @ crop_name @ '': PNG'' @ arrow @ ''AVIF failed'']\<rparr>),
                  logger ERROR (CropAvifFailed crop_name) s2)
             | (Inr True, s2) \<Rightarrow>
                 (Inr (stats\<lparr>png_bytes := png_bytes stats + file_size env (world s1)
                          (crop_png a crop_name),
                        avif_bytes := avif_bytes stats + file_size env (world s2)
                          (crop_avif a crop_name)\<rparr>),
                  s2)))"
  using assms
  by (simp add: process_crop_def Let_def split: sum.split bool.split prod.split)

lemma process_crop_counters:
  assumes "process_crop env a item stats s = (Inr stats', s')"
  shows "total stats' = total stats \<and> skipped stats' = skipped stats
     \<and> failed stats' = failed stats \<and> converted stats' = converted stats
     \<and> dds_bytes stats' = dds_bytes stats \<and> warnings stats' = warnings stats"
proof -
  obtain crop_name region where item: "item = (crop_name, region)"
    by (cases item)
  let ?png = "crop_png a crop_name"
  let ?avif = "crop_avif a crop_name"
  obtain r s1 where one: "crop_sprite env (checkbox_png a) region ?png s = (r, s1)"
    by (cases "crop_sprite env (checkbox_png a) region ?png s")
  obtain r' s2 where two: "png_to_avif env ?png ?avif True (jobs a) s1 = (r', s2)"
    by (cases "png_to_avif env ?png ?avif True (jobs a) s1")
  note body = process_crop_result [OF one, of stats]
  show ?thesis
  proof (cases r)
    case (Inl e)
    with assms body item show ?thesis by simp
  next
    case (Inr b)
    note r = this
    show ?thesis
    proof (cases b)
      case False
      with assms body item r show ?thesis by auto
    next
      case True
      note b = this
      show ?thesis
      proof (cases "no_avif a")
        case True
        with assms body item r b show ?thesis by auto
      next
        case False
        note av = this
        show ?thesis
        proof (cases r')
          case (Inl e)
          with assms body item r b av two show ?thesis by simp
        next
          case (Inr b')
          with assms body item r b av two show ?thesis by (cases b') auto
        qed
      qed
    qed
  qed
qed

lemma process_crops_counters:
  assumes "process_crops env a items stats s = (Inr stats', s')"
  shows "total stats' = total stats \<and> skipped stats' = skipped stats
     \<and> failed stats' = failed stats \<and> converted stats' = converted stats
     \<and> dds_bytes stats' = dds_bytes stats"
  using assms
proof (induction items arbitrary: stats s)
  case Nil
  then show ?case by simp
next
  case (Cons item rest)
  from Cons.prems obtain st1 s1 where
    step: "process_crop env a item stats s = (Inr st1, s1)" and
    rest: "process_crops env a rest st1 s1 = (Inr stats', s')"
    by (auto split: prod.splits sum.splits)
  from process_crop_counters [OF step] Cons.IH [OF rest] show ?case
    by simp
qed

lemma crop_pass_counters:
  assumes "crop_pass env a stats s = (Inr stats', s')"
  shows "total stats' = total stats \<and> skipped stats' = skipped stats
     \<and> failed stats' = failed stats \<and> converted stats' = converted stats
     \<and> dds_bytes stats' = dds_bytes stats"
proof -
  consider (raise) e where "is_file env (world s) (checkbox_png a) = Inl e"
    | (absent) "is_file env (world s) (checkbox_png a) = Inr False"
    | (present) "is_file env (world s) (checkbox_png a) = Inr True"
    by (cases "is_file env (world s) (checkbox_png a)") auto
  then show ?thesis
  proof cases
    case raise
    with assms show ?thesis
      by (simp add: crop_pass_def)
  next
    case absent
    with assms show ?thesis
      by (auto simp: crop_pass_def)
  next
    case present
    with assms have "process_crops env a CHECKBOX_REGIONS stats s = (Inr stats', s')"
      by (simp add: crop_pass_def)
    then show ?thesis
      by (rule process_crops_counters)
  qed
qed

text \<open>
  C7, as amended. An asset whose source is found absent (\<^verbatim>\<open>is_file\<close> answers
  \<open>False\<close>) is skipped: the skipped counter moves by one and a warning is recorded,
  the failed and converted counters and the errors stay, no tool is run and the world
  is left as it was, and the loop goes on with the next asset.
\<close>

theorem missing_source_is_skipped:
  assumes "is_file env (world s) (src_dds entry) = Inr False"
  shows "\<exists>stats' s'. process_entry env a i entry stats s = (Inr stats', s')
     \<and> skipped stats' = skipped stats + 1
     \<and> warnings stats' = warnings stats
          @ [category entry @ ''/'' @ py_str (name entry) @ '': DDS missing'']
     \<and> log s' = log s
          @ [(WARNING, DdsNotFound (i, total stats, category entry, name entry) (src_dds entry))]
     \<and> failed stats' = failed stats
     \<and> converted stats' = converted stats
     \<and> errors stats' = errors stats
     \<and> calls s' = calls s
     \<and> world s' = world s
     \<and> asset_state env a entry s = Some SKIPPED
     \<and> process_assets env a i (entry # rest) stats s
         = process_assets env a (i + 1) rest stats' s'"
  using assms by (simp add: process_entry_skip asset_state_def)

theorem missing_source_is_skipped_witness:
  "\<exists>stats' s'. process_entry missing_env demo_args 1 laser_entry (init_stats [laser_entry]) demo_sys
       = (Inr stats', s')
     \<and> skipped stats' = 1
     \<and> warnings stats' = [''tech_icons/laser_1: DDS missing'']
     \<and> failed stats' = 0
     \<and> calls s' = []
     \<and> world s' = 0"
proof -
  have absent: "is_file missing_env (world demo_sys) (src_dds laser_entry) = Inr False"
    by (simp add: demo_defs icon_entry_def py_str_def)
  have init: "skipped (init_stats [laser_entry]) = 0" "failed (init_stats [laser_entry]) = 0"
    "warnings (init_stats [laser_entry]) = []"
    by (simp_all add: init_stats_def)
  have label: "category laser_entry @ ''/'' @ py_str (name laser_entry) @ '': DDS missing''
      = ''tech_icons/laser_1: DDS missing''"
    by (simp add: laser_entry_def icon_entry_def py_str_def)
  have sys: "calls demo_sys = []" "world demo_sys = 0"
    by (simp_all add: demo_sys_def)
  from missing_source_is_skipped [OF absent, of demo_args 1 "init_stats [laser_entry]" "[]"]
  show ?thesis
    unfolding init label sys by auto
qed

text \<open>
  The source of \<open>laser_1\<close> is not there (\<^verbatim>\<open>stat\<close> fails on it), and the check of it
  raises: the exception leaves the loop body and the loop, the entry after it is not
  processed, and no statistics come back, the skipped counter no more than the others.
\<close>

theorem missing_source_counterexample:
  "stat_size unreadable_env (world demo_sys) (src_dds laser_entry) = None
   \<and> process_entry unreadable_env demo_args 1 laser_entry (init_stats [laser_entry, laser_entry])
        demo_sys
     = (Inl OSError, demo_sys)
   \<and> process_assets unreadable_env demo_args 1 [laser_entry, laser_entry]
        (init_stats [laser_entry, laser_entry]) demo_sys
     = (Inl OSError, demo_sys)"
  by (simp add: process_entry_def demo_defs icon_entry_def py_str_def Let_def)

text \<open>
  C8. When stage one has succeeded and stage two fails, the failed counter alone moves
  (not the skipped one, not the converted one) and an error is recorded; the two
  conversions are the only tools run for the asset and the world is left as the encoder
  left it, so nothing is done to the intermediate output; the loop goes on with the
  next asset.
\<close>

theorem stage_two_failure_keeps_intermediate:
  assumes "is_file env (world s) (src_dds entry) = Inr True"
    and "dds_to_png env (src_dds entry) (dst_png entry) s = (Inr True, s1)"
    and "\<not> no_avif a"
    and "png_to_avif env (dst_png entry) (dst_avif entry) (lossless entry) (jobs a) s1 = (Inr False, s2)"
  shows "\<exists>stats' s'. process_entry env a i entry stats s = (Inr stats', s')
     \<and> failed stats' = failed stats + 1
     \<and> skipped stats' = skipped stats
     \<and> converted stats' = converted stats
     \<and> errors stats' = errors stats
          @ [category entry @ ''/'' @ py_str (name entry) @ '': PNG'' @ arrow @ ''AVIF failed'']
     \<and> world s' = world s2
     \<and> calls s' = calls s @ [[S ''magick'', P (src_dds entry), P (dst_png entry)],
                              avifenc_cmd (dst_png entry) (dst_avif entry) (lossless entry) (jobs a)]
     \<and> asset_state env a entry s = Some FAILED
     \<and> process_assets env a i (entry # rest) stats s
         = process_assets env a (i + 1) rest stats' s'"
proof -
  have calls: "calls s2 = calls s @ [[S ''magick'', P (src_dds entry), P (dst_png entry)],
                              avifenc_cmd (dst_png entry) (dst_avif entry) (lossless entry) (jobs a)]"
    using dds_to_png_calls [OF assms(2)] png_to_avif_calls [OF assms(4)] by simp
  have state: "asset_state env a entry s = Some FAILED"
    using assms by (simp add: asset_state_def)
  show ?thesis
    using calls state assms(3) assms(4)
    by (simp add: process_entry_stage_one [OF assms(1) assms(2)])
qed


theorem stage_two_failure_keeps_intermediate_witness:
  "\<exists>stats' s'. process_entry avif_fail_env demo_args 1 laser_entry (init_stats [laser_entry]) demo_sys
       = (Inr stats', s')
     \<and> failed stats' = 1
     \<and> skipped stats' = 0
     \<and> converted stats' = 0
     \<and> calls s' = [[S ''magick'', P (src_dds laser_entry), P (dst_png laser_entry)],
                    avifenc_cmd (dst_png laser_entry) (dst_avif laser_entry) True 0]"
proof -
  let ?s1 = "\<lparr>world = 2, calls = [[S ''magick'', P (src_dds laser_entry), P (dst_png laser_entry)]],
              log = []\<rparr> :: nat sys"
  let ?cmd = "avifenc_cmd (dst_png laser_entry) (dst_avif laser_entry) True 0"
  let ?s2 = "\<lparr>world = 4,
              calls = [[S ''magick'', P (src_dds laser_entry), P (dst_png laser_entry)], ?cmd],
              log = [(ERROR, AvifencFailed ?cmd ''error'')]\<rparr> :: nat sys"
  have present: "is_file avif_fail_env (world demo_sys) (src_dds laser_entry) = Inr True"
    by (simp add: demo_defs)
  have one: "dds_to_png avif_fail_env (src_dds laser_entry) (dst_png laser_entry) demo_sys
      = (Inr True, ?s1)"
    by (simp add: dds_to_png_def subprocess_run_def demo_defs)
  have avif: "\<not> no_avif demo_args"
    by (simp add: demo_args_def)
  have ll: "lossless laser_entry = True" "jobs demo_args = 0"
    by (simp_all add: laser_entry_def icon_entry_def demo_args_def)
  have two: "png_to_avif avif_fail_env (dst_png laser_entry) (dst_avif laser_entry)
      (lossless laser_entry) (jobs demo_args) ?s1 = (Inr False, ?s2)"
    unfolding ll
    by (simp add: png_to_avif_def subprocess_run_def demo_defs avifenc_cmd_def logger_def Let_def)
  have init: "skipped (init_stats [laser_entry]) = 0" "failed (init_stats [laser_entry]) = 0"
    "converted (init_stats [laser_entry]) = 0"
    by (simp_all add: init_stats_def)
  have sys: "calls demo_sys = []"
    by (simp add: demo_sys_def)
  from stage_two_failure_keeps_intermediate
    [OF present one avif two, of 1 "init_stats [laser_entry]" "[]"]
  show ?thesis
    unfolding init ll sys by auto
qed

text \<open>
  C10. Each entry that the main pass processes moves exactly one of the skipped, failed
  and converted counters, by one, and leaves the total; after the main pass the three
  counters count the assets that reached each terminal state and add up to the total,
  which is the length of the manifest; the crop pass changes none of the four counters.
\<close>

theorem counters_partition_manifest:
  assumes "process_assets env a 1 manifest (init_stats manifest) s = (Inr stats, s1)"
    and "crop_pass env a stats s1 = (Inr stats', s2)"
  shows "skipped stats + failed stats + converted stats = total stats
     \<and> total stats = int (length manifest)
     \<and> skipped stats = int (count_list (asset_states env a 1 manifest (init_stats manifest) s) SKIPPED)
     \<and> failed stats = int (count_list (asset_states env a 1 manifest (init_stats manifest) s) FAILED)
     \<and> converted stats
         = int (count_list (asset_states env a 1 manifest (init_stats manifest) s) CONVERTED)
     \<and> total stats' = total stats
     \<and> skipped stats' = skipped stats
     \<and> failed stats' = failed stats
     \<and> converted stats' = converted stats
     \<and> (\<forall>i entry st u st' u'. process_entry env a i entry st u = (Inr st', u') \<longrightarrow>
           total st' = total st
           \<and> (skipped st' = skipped st + 1 \<and> failed st' = failed st \<and> converted st' = converted st
              \<or> skipped st' = skipped st \<and> failed st' = failed st + 1 \<and> converted st' = converted st
              \<or> skipped st' = skipped st \<and> failed st' = failed st \<and> converted st' = converted st + 1))"
proof -
  let ?ts = "asset_states env a 1 manifest (init_stats manifest) s"
  from process_assets_counts [OF assms(1)] have
    len: "length ?ts = length manifest" and
    tot: "total stats = int (length manifest)" and
    sk: "skipped stats = int (count_list ?ts SKIPPED)" and
    fa: "failed stats = int (count_list ?ts FAILED)" and
    co: "converted stats = int (count_list ?ts CONVERTED)"
    by (simp_all add: init_stats_def)
  have sum: "skipped stats + failed stats + converted stats = total stats"
    using count_terminal [of ?ts] len tot sk fa co by simp
  have step: "total st' = total st
           \<and> (skipped st' = skipped st + 1 \<and> failed st' = failed st \<and> converted st' = converted st
              \<or> skipped st' = skipped st \<and> failed st' = failed st + 1 \<and> converted st' = converted st
              \<or> skipped st' = skipped st \<and> failed st' = failed st \<and> converted st' = converted st + 1)"
    if "process_entry env a i entry st u = (Inr st', u')" for i entry st u st' u'
  proof -
    from process_entry_state [OF that] obtain t where
      "total st' = total st"
      "skipped st' = skipped st + (if t = SKIPPED then 1 else 0)"
      "failed st' = failed st + (if t = FAILED then 1 else 0)"
      "converted st' = converted st + (if t = CONVERTED then 1 else 0)"
      by blast
    then show ?thesis by (cases t) simp_all
  qed
  from sum tot sk fa co crop_pass_counters [OF assms(2)] step show ?thesis
    by blast
qed

lemmas driver_defs =
  process_entry_def process_crop_def crop_pass_def crop_sprite_def dds_to_png_def png_to_avif_def
  subprocess_run_def file_size_def logger_def avifenc_cmd_def init_stats_def Let_def
  CHECKBOX_REGIONS_def str_int_def

theorem counters_partition_manifest_witness:
  "\<exists>stats s1 stats' s2.
     process_assets crop_fail_env demo_args 1 [laser_entry] (init_stats [laser_entry]) demo_sys
       = (Inr stats, s1)
     \<and> crop_pass crop_fail_env demo_args stats s1 = (Inr stats', s2)
     \<and> skipped stats + failed stats + converted stats = total stats
     \<and> total stats = 1
     \<and> failed stats' = failed stats
     \<and> converted stats' = converted stats"
proof -
  let ?stats = "\<lparr>total = 1, converted = 0, skipped = 1, failed = 0, dds_bytes = 0, png_bytes = 0,
                 avif_bytes = 0, errors = [],
                 warnings = [''tech_icons/laser_1: DDS missing'']\<rparr>"
  let ?s1 = "\<lparr>world = 0, calls = [],
              log = [(WARNING, DdsNotFound (1, 1, ''tech_icons'', AStr ''laser_1'')
                        (src_dds laser_entry))]\<rparr> :: nat sys"
  have main_pass:
    "process_assets crop_fail_env demo_args 1 [laser_entry] (init_stats [laser_entry]) demo_sys
       = (Inr ?stats, ?s1)"
    by (simp add: driver_defs demo_defs icon_entry_def py_str_def)
  have "\<exists>stats' s2. crop_pass crop_fail_env demo_args ?stats ?s1 = (Inr stats', s2)"
    by (simp add: driver_defs demo_defs str_nat.simps)
  then obtain stats' s2 where
    crops: "crop_pass crop_fail_env demo_args ?stats ?s1 = (Inr stats', s2)"
    by blast
  from counters_partition_manifest [OF main_pass crops] main_pass crops show ?thesis
    by auto
qed

text \<open>
  C2, as amended. In the crop pass a failure of the crop or of its stage-two conversion
  appends one error message and moves no counter, the failed counter included; a
  successful crop adds the size of the cropped image to the intermediate byte total and
  a successful stage two adds the size of its output to the final byte total, as the
  main pass does, and the converted counter stays. The total, the skipped counter, the
  source byte total and the warnings stay as well.
\<close>

theorem crop_step_accounting:
  assumes step: "process_crop env a (crop_name, region) stats s = (Inr stats', s')"
    and crop: "crop_sprite env (checkbox_png a) region (crop_png a crop_name) s = (Inr cropped, s1)"
  shows "total stats' = total stats
     \<and> skipped stats' = skipped stats
     \<and> failed stats' = failed stats
     \<and> converted stats' = converted stats
     \<and> dds_bytes stats' = dds_bytes stats
     \<and> warnings stats' = warnings stats
     \<and> (\<not> cropped \<longrightarrow>
           errors stats' = errors stats @ [''sprites/'' @ crop_name @ '': crop failed'']
           \<and> png_bytes stats' = png_bytes stats
           \<and> avif_bytes stats' = avif_bytes stats)
     \<and> (cropped \<longrightarrow>
           png_bytes stats' = png_bytes stats + file_size env (world s1) (crop_png a crop_name))
     \<and> (cropped \<and> no_avif a \<longrightarrow>
           errors stats' = errors stats \<and> avif_bytes stats' = avif_bytes stats)
     \<and> (cropped \<and> \<not> no_avif a \<longrightarrow>
           (\<exists>encoded s2.
              png_to_avif env (crop_png a crop_name) (crop_avif a crop_name) True (jobs a) s1
                = (Inr encoded, s2)
              \<and> (encoded \<longrightarrow>
                    errors stats' = errors stats
                    \<and> avif_bytes stats'
                      = avif_bytes stats + file_size env (world s2) (crop_avif a crop_name))
              \<and> (\<not> encoded \<longrightarrow>
                    errors stats'
                      = errors stats @ [''sprites/'' @ crop_name @ '': PNG'' @ arrow @ ''AVIF failed'']
                    \<and> avif_bytes stats' = avif_bytes stats)))"
proof -
  note body = process_crop_result [OF crop, of stats]
  obtain r' s2 where two:
    "png_to_avif env (crop_png a crop_name) (crop_avif a crop_name) True (jobs a) s1 = (r', s2)"
    by (cases "png_to_avif env (crop_png a crop_name) (crop_avif a crop_name) True (jobs a) s1")
  show ?thesis
  proof (cases cropped)
    case False
    with step body have
      "stats' = stats\<lparr>errors := errors stats @ [''sprites/'' @ crop_name @ '': crop failed'']\<rparr>"
      by auto
    with False show ?thesis by simp
  next
    case True
    note c = this
    show ?thesis
    proof (cases "no_avif a")
      case True
      with step body c have
        "stats' = stats\<lparr>png_bytes := png_bytes stats
                    + file_size env (world s1) (crop_png a crop_name)\<rparr>"
        by auto
      with c True show ?thesis by simp
    next
      case False
      note av = this
      show ?thesis
      proof (cases r')
        case (Inl e)
        with step body c av two show ?thesis by simp
      next
        case (Inr encoded)
        note r' = this
        show ?thesis
        proof (cases encoded)
          case True
          with step body c av two r' have
            "stats' = stats\<lparr>png_bytes := png_bytes stats
                        + file_size env (world s1) (crop_png a crop_name),
                      avif_bytes := avif_bytes stats
                        + file_size env (world s2) (crop_avif a crop_name)\<rparr>"
            by auto
          with c av two r' True show ?thesis by auto
        next
          case False
          with step body c av two r' have
            "stats' = stats\<lparr>png_bytes := png_bytes stats
                        + file_size env (world s1) (crop_png a crop_name),
                      errors := errors stats
                        @ [''sprites/'' @ crop_name @ '': PNG'' @ arrow @ ''AVIF failed'']\<rparr>"
            by auto
          with c av two r' False show ?thesis by auto
        qed
      qed
    qed
  qed
qed

theorem crop_step_accounting_witness:
  "\<exists>stats' s'.
     process_crop crop_ok_env demo_args (''checkbox_normal'', (11, 11, 26, 26)) (init_stats []) demo_sys
       = (Inr stats', s')
     \<and> failed stats' = 0
     \<and> converted stats' = 0
     \<and> png_bytes stats'
       = file_size crop_ok_env 2 (crop_png demo_args ''checkbox_normal'')"
proof -
  let ?cmd = "[S ''magick'', P (checkbox_png demo_args), S ''-crop'', S ''26x26+11+11'',
               S ''+repage'', P (crop_png demo_args ''checkbox_normal'')]"
  let ?s1 = "\<lparr>world = 2, calls = [?cmd], log = []\<rparr> :: nat sys"
  have crop: "crop_sprite crop_ok_env (checkbox_png demo_args) (11, 11, 26, 26)
      (crop_png demo_args ''checkbox_normal'') demo_sys = (Inr True, ?s1)"
    by (simp add: crop_sprite_def subprocess_run_def demo_env_def crop_ok_env_def tool_ok_def
          no_dirs_fail_def demo_sys_def str_int_def str_nat.simps Let_def)
  have "\<exists>stats' s'. process_crop crop_ok_env demo_args (''checkbox_normal'', (11, 11, 26, 26))
      (init_stats []) demo_sys = (Inr stats', s')"
    by (simp add: driver_defs demo_defs str_nat.simps)
  then obtain stats' s' where
    step: "process_crop crop_ok_env demo_args (''checkbox_normal'', (11, 11, 26, 26))
      (init_stats []) demo_sys = (Inr stats', s')"
    by blast
  have init: "failed (init_stats []) = 0" "converted (init_stats []) = 0"
    "png_bytes (init_stats []) = 0"
    by (simp_all add: init_stats_def)
  have w: "world ?s1 = 2"
    by simp
  from crop_step_accounting [OF step crop] step show ?thesis
    unfolding init w by auto
qed

theorem crop_accounting_counterexample:
  "fst (process_crop crop_fail_env demo_args (''checkbox_normal'', (11, 11, 26, 26))
          (init_stats []) demo_sys)
     = Inr \<lparr>total = 0, converted = 0, skipped = 0, failed = 0, dds_bytes = 0, png_bytes = 0,
            avif_bytes = 0, errors = [''sprites/checkbox_normal: crop failed''], warnings = []\<rparr>
   \<and> fst (process_crop crop_ok_env demo_args (''checkbox_normal'', (11, 11, 26, 26))
          (init_stats []) demo_sys)
     = Inr \<lparr>total = 0, converted = 0, skipped = 0, failed = 0, dds_bytes = 0, png_bytes = 0,
            avif_bytes = 0, errors = [], warnings = []\<rparr>"
  by (simp add: driver_defs demo_defs str_nat.simps)

section \<open>The run as a whole\<close>

lemma check_tool_state:
  "check_tool env nm s = (b, s') \<Longrightarrow> world s' = world s \<and> calls s' = calls s"
  by (auto simp: check_tool_def split: option.splits)

lemma preflight_state:
  assumes "preflight env a s = (b, s')"
  shows "world s' = world s \<and> calls s' = calls s"
proof -
  obtain b1 s1 where m: "check_tool env ''magick'' s = (b1, s1)"
    by (cases "check_tool env ''magick'' s")
  obtain b2 s2 where v: "check_tool env ''avifenc'' s1 = (b2, s2)"
    by (cases "check_tool env ''avifenc'' s1")
  from check_tool_state [OF m] check_tool_state [OF v] assms m v show ?thesis
    by (auto simp: preflight_def Let_def split: if_splits bool.splits sum.splits)
qed

lemma build_fails_on_bad_metadata:
  assumes "\<not> is_mapping_document (rd (Join dd ''technologies.json''))
     \<or> \<not> is_mapping_document (rd (Join dd ''technology_swaps.json''))"
  shows "\<exists>e. build_asset_manifest sp dd od rd = Inl e"
proof (cases "load_tech_icons (rd (Join dd ''technologies.json''))")
  case (Inl e)
  then show ?thesis
    by (simp add: build_asset_manifest_def)
next
  case (Inr tech_icons)
  then have "is_mapping_document (rd (Join dd ''technologies.json''))"
    by (auto simp: load_tech_icons_def load_json_def py_values_def is_mapping_document_def
        split: file_content.splits json.splits sum.splits)
  with assms have "\<not> is_mapping_document (rd (Join dd ''technology_swaps.json''))"
    by simp
  then have "\<exists>e. load_swap_icons (rd (Join dd ''technology_swaps.json'')) tech_icons = Inl e"
    by (auto simp: load_swap_icons_def load_json_def py_values_def is_mapping_document_def
        split: file_content.splits json.splits sum.splits)
  with Inr show ?thesis
    by (auto simp: build_asset_manifest_def)
qed

text \<open>
  C5. When a required metadata file is absent, is not valid JSON or does not hold a
  mapping at its top level, the manifest builder fails with an exception, and the run
  ends with a nonzero exit status before any tool has been run and with the world as it
  was; once the pre-flight checks have passed, it ends with the exception of the
  builder.
\<close>

theorem bad_metadata_aborts_run:
  assumes "\<not> is_mapping_document (read_file env (world s) (Join (data_dir a) ''technologies.json''))
     \<or> \<not> is_mapping_document (read_file env (world s) (Join (data_dir a) ''technology_swaps.json''))"
  shows "(\<exists>e. build_asset_manifest (stellaris_path a) (data_dir a) (output_dir a)
                (read_file env (world s)) = Inl e)
     \<and> exit_status (fst (main env a s)) \<noteq> 0
     \<and> calls (snd (main env a s)) = calls s
     \<and> world (snd (main env a s)) = world s
     \<and> (fst (preflight env a s) = Inr True \<longrightarrow> (\<exists>e. fst (main env a s) = Inl e))"
proof -
  from assms obtain e where
    build: "build_asset_manifest (stellaris_path a) (data_dir a) (output_dir a)
              (read_file env (world s)) = Inl e"
    using build_fails_on_bad_metadata by blast
  obtain b s0 where pre: "preflight env a s = (b, s0)"
    by (cases "preflight env a s")
  from preflight_state [OF pre] have st: "world s0 = world s" "calls s0 = calls s"
    by simp_all
  have run: "main env a s =
      (case b of Inl x \<Rightarrow> Inl x | Inr False \<Rightarrow> Inr 1 | Inr True \<Rightarrow> Inl e, s0)"
    using pre build st by (simp add: main_def split: sum.split bool.split)
  show ?thesis
    using build pre st by (simp add: run exit_status_def split: sum.split bool.split)
qed

theorem bad_metadata_aborts_run_witness:
  "fst (main bad_swaps_env demo_args demo_sys) = Inl AttributeError
   \<and> exit_status (fst (main bad_swaps_env demo_args demo_sys)) \<noteq> 0
   \<and> calls (snd (main bad_swaps_env demo_args demo_sys)) = []"
proof -
  have bad: "\<not> is_mapping_document
       (read_file bad_swaps_env (world demo_sys) (Join (data_dir demo_args) ''technologies.json''))
     \<or> \<not> is_mapping_document
       (read_file bad_swaps_env (world demo_sys) (Join (data_dir demo_args) ''technology_swaps.json''))"
    by (simp add: demo_defs is_mapping_document_def)
  have run: "fst (main bad_swaps_env demo_args demo_sys) = Inl AttributeError"
    by (simp add: main_def preflight_def check_tool_def demo_defs builder_defs)
  have sys: "calls demo_sys = []"
    by (simp add: demo_sys_def)
  from bad_metadata_aborts_run [OF bad] run sys show ?thesis
    by simp
qed

text \<open>
  C9, as amended. A dry run whose log file is opened, on which the pre-flight checks
  pass, the manifest is built and none of the existence checks of the listing raises,
  returns 0, runs no tool and leaves the world as the opening of the log file left it:
  no directory is made and nothing but the log file is written, whatever sources are
  there.
\<close>

theorem dry_run_is_pure:
  assumes dry: "dry_run a"
    and logging: "open_log env (world s) (log_file a) = (None, w)"
    and pre: "fst (preflight env a (s\<lparr>world := w\<rparr>)) = Inr True"
    and build: "build_asset_manifest (stellaris_path a) (data_dir a) (output_dir a)
                  (read_file env w) = Inr manifest"
    and listing: "dry_run_listing env w manifest SUBDIRS = None"
  shows "fst (run_script env a s) = Inr 0
     \<and> exit_status (fst (run_script env a s)) = 0
     \<and> calls (snd (run_script env a s)) = calls s
     \<and> world (snd (run_script env a s)) = w"
proof -
  obtain s0 where p: "preflight env a (s\<lparr>world := w\<rparr>) = (Inr True, s0)"
    using pre by (cases "preflight env a (s\<lparr>world := w\<rparr>)") simp
  from preflight_state [OF p] have st: "world s0 = w" "calls s0 = calls s"
    by simp_all
  have "main env a (s\<lparr>world := w\<rparr>) = (Inr 0, s0)"
    using p dry build listing st by (simp add: main_def)
  then have "run_script env a s = (Inr 0, s0)"
    using logging by (simp add: run_script_def setup_logging_def)
  then show ?thesis
    using st by (simp add: exit_status_def)
qed

theorem dry_run_is_pure_witness:
  "fst (run_script missing_env dry_args demo_sys) = Inr 0
   \<and> calls (snd (run_script missing_env dry_args demo_sys)) = []
   \<and> world (snd (run_script missing_env dry_args demo_sys)) = 1
   \<and> is_file missing_env 1 (src_dds laser_entry) = Inr False"
proof -
  let ?m = "fixed_entries (Path ''stellaris'') (Join (Path ''out'') ''png'')
               (Join (Path ''out'') ''avif'')"
  have dry: "dry_run dry_args"
    by (simp add: dry_args_def)
  have logging: "open_log missing_env (world demo_sys) (log_file dry_args) = (None, 1)"
    by (simp add: demo_defs)
  have pre: "fst (preflight missing_env dry_args (demo_sys\<lparr>world := 1\<rparr>)) = Inr True"
    by (simp add: preflight_def check_tool_def demo_defs)
  have build: "build_asset_manifest (stellaris_path dry_args) (data_dir dry_args)
      (output_dir dry_args) (read_file missing_env 1) = Inr ?m"
    by (simp add: demo_defs builder_defs)
  have listing: "dry_run_listing missing_env 1 ?m SUBDIRS = None"
    by (simp add: SUBDIRS_def demo_defs fixed_defs)
  have sys: "calls demo_sys = []"
    by (simp add: demo_sys_def)
  have absent: "is_file missing_env 1 (src_dds laser_entry) = Inr False"
    by (simp add: demo_defs icon_entry_def py_str_def)
  from dry_run_is_pure [OF dry logging pre build listing] sys absent show ?thesis
    by simp
qed

text \<open>
  Two dry runs on which the pre-flight checks pass and the manifest is built. In the
  first the check of a source raises: the run ends with the exception, hence with exit
  status 1. In the second the log file is asked for under the output directory: it is
  written there.
\<close>

theorem dry_run_counterexample:
  "fst (preflight unreadable_env dry_args (demo_sys\<lparr>world := 1\<rparr>)) = Inr True
   \<and> build_asset_manifest (stellaris_path dry_args) (data_dir dry_args) (output_dir dry_args)
        (read_file unreadable_env 1)
     = Inr (fixed_entries (Path ''stellaris'') (Join (Path ''out'') ''png'')
              (Join (Path ''out'') ''avif''))
   \<and> fst (run_script unreadable_env dry_args demo_sys) = Inl OSError
   \<and> exit_status (fst (run_script unreadable_env dry_args demo_sys)) = 1
   \<and> fst (run_script trace_env dry_args_log_in_output trace_sys) = Inr 0
   \<and> world (snd (run_script trace_env dry_args_log_in_output trace_sys))
     = [Join (output_dir dry_args_log_in_output) ''extraction.log'']"
proof -
  have pre: "fst (preflight unreadable_env dry_args (demo_sys\<lparr>world := 1\<rparr>)) = Inr True"
    by (simp add: preflight_def check_tool_def demo_defs)
  have build: "build_asset_manifest (stellaris_path dry_args) (data_dir dry_args)
        (output_dir dry_args) (read_file unreadable_env 1)
     = Inr (fixed_entries (Path ''stellaris'') (Join (Path ''out'') ''png'')
              (Join (Path ''out'') ''avif''))"
    by (simp add: demo_defs builder_defs)
  have raise: "fst (run_script unreadable_env dry_args demo_sys) = Inl OSError"
    by (simp add: run_script_def setup_logging_def main_def preflight_def check_tool_def
          SUBDIRS_def demo_defs builder_defs fixed_defs)
  have log: "run_script trace_env dry_args_log_in_output trace_sys
      = (Inr 0, \<lparr>world = [Join (Path ''out'') ''extraction.log''], calls = [], log = []\<rparr>)"
    by (simp add: run_script_def setup_logging_def main_def preflight_def check_tool_def
          SUBDIRS_def demo_defs builder_defs fixed_defs)
  have out: "output_dir dry_args_log_in_output = Path ''out''"
    by (simp add: demo_defs)
  from pre build raise log out show ?thesis
    by (simp add: exit_status_def)
qed

lemma count_list_pos: "0 < count_list xs x \<longleftrightarrow> x \<in> set xs"
  by (induction xs) auto

text \<open>
  C1, as amended. A run that enters the processing loop and returns, returns 1 when the
  stage-one or the stage-two conversion of at least one asset of the manifest failed,
  and 0 otherwise, however many assets were skipped and whatever the crop pass did:
  the crops do not enter the exit status.
\<close>

theorem exit_status_counts_failed_assets:
  assumes pre: "preflight env a s = (Inr True, s0)"
    and build: "build_asset_manifest (stellaris_path a) (data_dir a) (output_dir a)
                  (read_file env (world s0)) = Inr manifest"
    and wet: "\<not> dry_run a"
    and dirs: "create_output_dirs env a SUBDIRS s0 = (None, s1)"
    and ret: "main env a s = (Inr rc, s')"
  shows "rc = (if FAILED \<in> set (asset_states env a 1 manifest (init_stats manifest) s1)
               then 1 else 0)
     \<and> exit_status (fst (main env a s)) = rc"
proof -
  obtain r2 s2 where pass: "process_assets env a 1 manifest (init_stats manifest) s1 = (r2, s2)"
    by (cases "process_assets env a 1 manifest (init_stats manifest) s1")
  have pipeline: "main env a s = run_pipeline env a manifest s0"
    using pre build wet by (simp add: main_def)
  from ret pipeline dirs pass obtain stats where r2: "r2 = Inr stats"
    by (cases r2) (simp_all add: run_pipeline_def)
  obtain r3 s3 where crops: "crop_pass env a stats s2 = (r3, s3)"
    by (cases "crop_pass env a stats s2")
  from ret pipeline dirs pass r2 crops obtain stats' where r3: "r3 = Inr stats'"
    by (cases r3) (simp_all add: run_pipeline_def)
  have rc: "rc = (if failed stats' > 0 then 1 else 0)"
    using ret pipeline dirs pass r2 crops r3 by (simp add: run_pipeline_def)
  have "failed stats' = failed stats"
    using crop_pass_counters crops r3 by blast
  also have "\<dots> = int (count_list (asset_states env a 1 manifest (init_stats manifest) s1) FAILED)"
    using process_assets_counts [of env a 1 manifest "init_stats manifest" s1 stats s2] pass r2
    by (simp add: init_stats_def)
  finally have "failed stats' > 0
      \<longleftrightarrow> FAILED \<in> set (asset_states env a 1 manifest (init_stats manifest) s1)"
    by (simp add: count_list_pos)
  with rc ret show ?thesis
    by (simp add: exit_status_def)
qed

lemmas run_defs =
  main_def preflight_def check_tool_def run_pipeline_def SUBDIRS_def exit_status_def

theorem exit_status_counterexample:
  "fst (main crop_fail_env demo_args demo_sys) = Inr 0
   \<and> (ERROR, CropFailed ''checkbox_normal'') \<in> set (log (snd (main crop_fail_env demo_args demo_sys)))"
  by (simp add: run_defs driver_defs demo_defs builder_defs fixed_defs str_nat.simps)


theorem exit_status_counts_failed_assets_witness:
  "fst (main failing_run_env demo_args demo_sys) = Inr 1
   \<and> FAILED \<in> set (asset_states failing_run_env demo_args 1 example_manifest
                     (init_stats example_manifest) (demo_sys\<lparr>world := 12\<rparr>))"
proof -
  have pre: "preflight failing_run_env demo_args demo_sys = (Inr True, demo_sys)"
    by (simp add: preflight_def check_tool_def demo_defs)
  have build: "build_asset_manifest (stellaris_path demo_args) (data_dir demo_args)
      (output_dir demo_args) (read_file failing_run_env (world demo_sys)) = Inr example_manifest"
    by (simp add: builder_defs demo_defs example_techs_def example_swaps_def example_manifest_def)
  have wet: "\<not> dry_run demo_args"
    by (simp add: demo_args_def)
  have dirs: "create_output_dirs failing_run_env demo_args SUBDIRS demo_sys
      = (None, demo_sys\<lparr>world := 12\<rparr>)"
    by (simp add: SUBDIRS_def demo_defs)
  have "\<exists>s'. main failing_run_env demo_args demo_sys = (Inr 1, s')"
    by (simp add: run_defs driver_defs demo_defs builder_defs fixed_defs str_nat.simps
          example_techs_def example_swaps_def)
  then obtain s' where ret: "main failing_run_env demo_args demo_sys = (Inr 1, s')"
    by blast
  from exit_status_counts_failed_assets [OF pre build wet dirs ret] ret show ?thesis
    by (simp split: if_splits)
qed

end
